theory Spec2Isabelle
  imports Main "HOL-Library.Sublist" "HOL-Library.Word"
begin

section \<open>Host lifecycle of the minikube cluster package\<close>

text \<open>
  A shallow embedding of \<^verbatim>\<open>pkg/minikube/cluster/cluster.go\<close>. Go strings and byte slices
  are \<^typ>\<open>string\<close> (lists of bytes), a Go \<^verbatim>\<open>error\<close> is a value of the datatype
  \<open>error\<close>, a function returning \<^verbatim>\<open>(T, error)\<close> returns \<open>error + T\<close> and a function
  returning only \<^verbatim>\<open>error\<close> returns \<open>error option\<close> (\<open>None\<close> is \<^verbatim>\<open>nil\<close>).
\<close>

subsection \<open>Errors\<close>

text \<open>
  \<open>External\<close> is an opaque failure reported by a collaborator. \<open>New\<close> and \<open>Wrap\<close> are
  \<^verbatim>\<open>errors.New\<close>/\<^verbatim>\<open>errors.Errorf\<close> and \<^verbatim>\<open>errors.Wrap\<close>/\<^verbatim>\<open>errors.Wrapf\<close>. The last three
  constructors are not returned values: \<open>Exit_Usage\<close> and \<open>Exit_WithError\<close> are the process
  terminations of \<^verbatim>\<open>exit.Usage\<close> and \<^verbatim>\<open>exit.WithError\<close>, and \<open>Panic\<close> is a Go run-time
  panic.
\<close>

datatype state =
  State_None | State_Running | State_Paused | State_Saved | State_Stopped
  | State_Stopping | State_Starting | State_Error | State_Timeout

datatype error =
    External string
  | ErrHostDoesNotExist string
  | ErrHostAlreadyInState string state
  | ErrDriverNotFound
  | New string
  | Wrap error string
  | RetriableError error
  | Exit_Usage string "string list"
  | Exit_WithError string error
  | Panic string

fun returned_error :: "error \<Rightarrow> bool" where
  "returned_error (Exit_Usage f args) = False"
| "returned_error (Exit_WithError m e) = False"
| "returned_error (Panic m) = False"
| "returned_error e = True"

subsection \<open>Text helpers\<close>

definition newline :: char where
  "newline = CHR 0x0A"

fun nat_digits :: "nat \<Rightarrow> string" where
  "nat_digits n =
     (if n < 10 then [''0123456789'' ! n]
      else nat_digits (n div 10) @ [''0123456789'' ! (n mod 10)])"

declare nat_digits.simps [simp del]

text \<open>Decimal text of a Go \<^verbatim>\<open>int\<close>, as \<^verbatim>\<open>fmt\<close> prints it.\<close>

definition itoa :: "int \<Rightarrow> string" where
  "itoa i = (if i < 0 then ''-'' @ nat_digits (nat (- i)) else nat_digits (nat i))"

text \<open>
  The escaper that \<^verbatim>\<open>html/template\<close> applies to a value substituted in text context: the
  bytes of its replacement table are replaced, every other byte is kept.
\<close>

fun html_escape_char :: "char \<Rightarrow> string" where
  "html_escape_char c =
     (if c = CHR 0x00 then [CHR 0xEF, CHR 0xBF, CHR 0xBD]
      else if c = CHR 0x22 then ''&#34;''
      else if c = CHR ''&'' then ''&amp;''
      else if c = CHR 0x27 then ''&#39;''
      else if c = CHR ''+'' then ''&#43;''
      else if c = CHR ''<'' then ''&lt;''
      else if c = CHR ''>'' then ''&gt;''
      else [c])"

definition html_escape :: "string \<Rightarrow> string" where
  "html_escape s = concat (map html_escape_char s)"

text \<open>Number of (possibly overlapping) occurrences of a text in another.\<close>

fun occurrences :: "string \<Rightarrow> string \<Rightarrow> nat" where
  "occurrences pat [] = (if pat = [] then 1 else 0)"
| "occurrences pat (c # cs) = (if prefix pat (c # cs) then 1 else 0) + occurrences pat cs"

subsection \<open>IP addresses\<close>

text \<open>
  \<^verbatim>\<open>net.IP\<close> is a byte slice: four bytes, or sixteen. \<open>IPv4\<close> is \<^verbatim>\<open>net.IPv4\<close>, the
  sixteen-byte form that \<^verbatim>\<open>net.ParseIP\<close> returns for a dotted quad; \<open>To4\<close> is
  \<^verbatim>\<open>IP.To4\<close>, with \<open>None\<close> for \<^verbatim>\<open>nil\<close>.
\<close>

type_synonym byte = "8 word"

type_synonym IP = "byte list"

definition v4InV6Prefix :: "byte list" where
  "v4InV6Prefix = [0, 0, 0, 0, 0, 0, 0, 0, 0, 0, 255, 255]"

definition IPv4 :: "byte \<Rightarrow> byte \<Rightarrow> byte \<Rightarrow> byte \<Rightarrow> IP" where
  "IPv4 a b c d = v4InV6Prefix @ [a, b, c, d]"

definition isZeros :: "IP \<Rightarrow> bool" where
  "isZeros p = list_all (\<lambda>b. b = 0) p"

definition To4 :: "IP \<Rightarrow> IP option" where
  "To4 ip =
     (if length ip = 4 then Some ip
      else if length ip = 16 \<and> isZeros (take 10 ip) \<and> ip ! 10 = 255 \<and> ip ! 11 = 255
        then Some (drop 12 ip)
      else None)"

text \<open>
  \<^verbatim>\<open>IP.String\<close>. The text of an address that is neither empty nor IPv4 is the argument
  \<open>other\<close>: no function of this package reads it.
\<close>

definition IP_String :: "(IP \<Rightarrow> string) \<Rightarrow> IP \<Rightarrow> string" where
  "IP_String other ip =
     (if length ip = 0 then ''<nil>''
      else (case To4 ip of
              Some p4 \<Rightarrow> nat_digits (unat (p4 ! 0)) @ ''.'' @ nat_digits (unat (p4 ! 1)) @ ''.''
                         @ nat_digits (unat (p4 ! 2)) @ ''.'' @ nat_digits (unat (p4 ! 3))
            | None \<Rightarrow> other ip))"

subsection \<open>Mount commands\<close>

definition GetMountCleanupCommand :: "string \<Rightarrow> string" where
  "GetMountCleanupCommand path = ''sudo umount '' @ path @ '';''"

text \<open>
  \<open>GetMountCommand\<close> executes \<open>mountTemplate\<close>, an \<^verbatim>\<open>html/template\<close>, on the seven fields:
  the literal parts are copied and each field is substituted escaped. Execution on a buffer
  with these fields cannot fail, so the result is always \<open>Inr\<close>.
\<close>

definition GetMountCommand ::
  "(IP \<Rightarrow> string) \<Rightarrow> IP \<Rightarrow> string \<Rightarrow> string \<Rightarrow> string \<Rightarrow> int \<Rightarrow> int \<Rightarrow> int \<Rightarrow> error + string" where
  "GetMountCommand other ip path port mountVersion uid gid msize =
     (let IP = html_escape (IP_String other ip);
          Path = html_escape path;
          Port = html_escape port;
          Version = html_escape mountVersion;
          UID = html_escape (itoa uid);
          GID = html_escape (itoa gid);
          Msize = html_escape (itoa msize)
      in Inr ([newline]
           @ ''sudo mkdir -p '' @ Path @ '' || true;'' @ [newline]
           @ ''sudo mount -t 9p -o trans=tcp,port='' @ Port @ '',dfltuid='' @ UID
           @ '',dfltgid='' @ GID @ '',version='' @ Version @ '',msize='' @ Msize
           @ '' '' @ IP @ '' '' @ Path @ '';'' @ [newline]
           @ ''sudo chmod 775 '' @ Path @ '' || true;''))"

subsection \<open>Network interfaces\<close>

text \<open>
  \<^verbatim>\<open>net.Addr\<close> is an interface; \<^verbatim>\<open>Interface.Addrs\<close> returns a slice of them. \<open>IPNet\<close> is
  \<^verbatim>\<open>*net.IPNet\<close> (address and mask), \<open>IPAddr\<close> is \<^verbatim>\<open>*net.IPAddr\<close> (address and zone) and
  \<open>OtherAddr\<close> stands for every other implementation.
\<close>

datatype Addr = IPNet IP IP | IPAddr IP string | OtherAddr string

datatype Interface = Interface int string

text \<open>
  The host's network configuration: the results of \<^verbatim>\<open>net.InterfaceByName\<close> and of
  \<^verbatim>\<open>Interface.Addrs\<close>.
\<close>

record network =
  net_InterfaceByName :: "string \<Rightarrow> error + Interface"
  Interface_Addrs :: "Interface \<Rightarrow> error + Addr list"

text \<open>The loop of \<open>getIPForInterface\<close> (lines 403 to 409).\<close>

fun getIPForInterface_loop :: "Addr list \<Rightarrow> IP option" where
  "getIPForInterface_loop [] = None"
| "getIPForInterface_loop (IPNet ip msk # addrs) =
     (case To4 ip of Some ip4 \<Rightarrow> Some ip4 | None \<Rightarrow> getIPForInterface_loop addrs)"
| "getIPForInterface_loop (a # addrs) = getIPForInterface_loop addrs"

text \<open>
  Both errors are discarded: after a failed \<^verbatim>\<open>InterfaceByName\<close> the interface is \<^verbatim>\<open>nil\<close>,
  \<^verbatim>\<open>Addrs\<close> on a \<^verbatim>\<open>nil\<close> interface returns a \<^verbatim>\<open>nil\<close> slice with an error, and a failed
  \<^verbatim>\<open>Addrs\<close> returns a \<^verbatim>\<open>nil\<close> slice.
\<close>

definition getIPForInterface :: "network \<Rightarrow> string \<Rightarrow> error + IP" where
  "getIPForInterface nw name =
     (let i = (case net_InterfaceByName nw name of Inl err \<Rightarrow> None | Inr ifc \<Rightarrow> Some ifc);
          addrs = (case i of
                     None \<Rightarrow> []
                   | Some ifc \<Rightarrow> (case Interface_Addrs nw ifc of Inl err \<Rightarrow> [] | Inr as \<Rightarrow> as))
      in case getIPForInterface_loop addrs of
           Some ip \<Rightarrow> Inr ip
         | None \<Rightarrow> Inl (New (''Error finding IPV4 address for '' @ name)))"

subsection \<open>The two regular expressions\<close>

text \<open>
  Both expressions of \<open>GetVMHostIP\<close> have the form \<^verbatim>\<open>pre(.*?)suf\<close> with literal \<open>pre\<close> and
  \<open>suf\<close>. \<open>FindStringSubmatch pre suf s\<close> is \<^verbatim>\<open>FindStringSubmatch\<close> of that expression: the
  leftmost match, with the shortest capture (\<^verbatim>\<open>.\<close> does not match a newline), as the list of the
  whole match and the capture; the empty list is the \<^verbatim>\<open>nil\<close> slice of no match.
\<close>

fun lazy_dot_until :: "string \<Rightarrow> string \<Rightarrow> string option" where
  "lazy_dot_until suf [] = (if suf = [] then Some [] else None)"
| "lazy_dot_until suf (c # cs) =
     (if prefix suf (c # cs) then Some []
      else if c = newline then None
      else map_option ((#) c) (lazy_dot_until suf cs))"

fun FindStringSubmatch :: "string \<Rightarrow> string \<Rightarrow> string \<Rightarrow> string list" where
  "FindStringSubmatch pre suf [] = (if pre = [] \<and> suf = [] then [[], []] else [])"
| "FindStringSubmatch pre suf (c # cs) =
     (if prefix pre (c # cs)
      then (case lazy_dot_until suf (drop (length pre) (c # cs)) of
              Some cap \<Rightarrow> [pre @ cap @ suf, cap]
            | None \<Rightarrow> FindStringSubmatch pre suf cs)
      else FindStringSubmatch pre suf cs)"

text \<open>Indexing a slice: out of range is a run-time panic.\<close>

definition index :: "'a list \<Rightarrow> nat \<Rightarrow> error + 'a" where
  "index xs i = (if i < length xs then Inr (xs ! i) else Inl (Panic ''index out of range''))"

subsection \<open>Machine records and configuration\<close>

text \<open>
  The fields of \<^verbatim>\<open>engine.Options\<close>, \<^verbatim>\<open>auth.Options\<close>, \<^verbatim>\<open>host.Options\<close>, \<^verbatim>\<open>host.Host\<close> and
  \<^verbatim>\<open>cfg.MachineConfig\<close> that this package reads or writes. A driver is seen through its
  \<^verbatim>\<open>DriverName()\<close> and an opaque configuration; its operations are collaborators (below),
  and so is the downloader of a configuration.
\<close>

record EngineOptions =
  Env :: "string list"
  InsecureRegistry :: "string list"
  RegistryMirror :: "string list"
  ArbitraryFlags :: "string list"

record AuthOptions =
  CertDir :: string
  StorePath :: string

record HostOptions =
  AuthOptions :: AuthOptions
  EngineOptions :: EngineOptions
  SwarmOptions :: string

datatype Driver = MkDriver (Driver_DriverName: string) (Driver_Config: string)

record Host =
  Name :: string
  DriverName :: string
  Driver :: Driver
  RawDriver :: string
  HostOptions :: HostOptions

record MachineConfig =
  VMDriver :: string
  CPUs :: int
  Memory :: int
  DiskSize :: int
  MinikubeISO :: string
  DockerEnv :: "string list"
  InsecureRegistry_cfg :: "string list"
  RegistryMirror_cfg :: "string list"
  DockerOpt :: "string list"

text \<open>A registered driver definition, with its \<^verbatim>\<open>ConfigCreator\<close>.\<close>

record DriverDef =
  ConfigCreator :: "MachineConfig \<Rightarrow> string"

subsection \<open>The world outside the package\<close>

text \<open>
  Every call of a collaborator is recorded, in order, in the \<open>trace\<close> (\<open>EvSleep\<close> is the
  pause of \<^verbatim>\<open>time.Sleep\<close>, in seconds); console output is recorded apart, in \<open>console\<close>,
  as the format and its arguments. The persisted records are the map \<open>store\<close>. The log
  lines of \<^verbatim>\<open>glog\<close> are left out: nothing reads them. A record is a value: the operations of
  a driver act on the machine, which is seen through the answers of the collaborators, and
  leave the fields of the record alone.
\<close>

datatype event =
    EvExists string
  | EvLoad string
  | EvSave Host
  | EvNewHost string string
  | EvCreate Host
  | EvRemove string
  | EvGetState Driver
  | EvStart Driver
  | EvDriverRemove Driver
  | EvStop Host
  | EvRunSSHCommand Host string
  | EvConfigureAuth Host
  | EvCacheMinikubeISOFromURL string
  | EvDetectProvisioner Driver
  | EvProvision string string AuthOptions EngineOptions
  | EvExec string "string list"
  | EvSleep nat

datatype console_msg =
    Out string
  | Warning string "string list"
  | OutStyle string string "string list"

record world =
  store :: "string \<Rightarrow> Host option"
  trace :: "event list"
  console :: "console_msg list"

text \<open>
  What the collaborators answer. Each answer may depend on the calls made so far (the trace
  at the time of the call), so a collaborator may fail at one call and succeed at the next.
  The first six fields are the package-level settings and constants that are declared in
  other packages; \<open>registry_Driver\<close> is the driver registry's lookup and \<open>State_String\<close>
  the textual form of a state.
\<close>

record env =
  GetMachineName :: string
  DefaultMachineName :: string
  DefaultServiceCIDR :: string
  GetMinipath :: string
  ShowDriverDeprecationNotification :: bool
  detectVBoxManageCmd :: string
  registry_Driver :: "string \<Rightarrow> error + DriverDef"
  json_Marshal :: "string \<Rightarrow> error + string"
  State_String :: "state \<Rightarrow> string"
  network :: network
  Exists_fault :: "string \<Rightarrow> event list \<Rightarrow> error option"
  Load_fault :: "string \<Rightarrow> event list \<Rightarrow> error option"
  Save_fault :: "Host \<Rightarrow> event list \<Rightarrow> error option"
  Remove_fault :: "string \<Rightarrow> event list \<Rightarrow> error option"
  NewHost_res :: "string \<Rightarrow> string \<Rightarrow> event list \<Rightarrow> error + Host"
  Create_fault :: "Host \<Rightarrow> event list \<Rightarrow> (error \<times> bool) option"
  GetState_res :: "Driver \<Rightarrow> event list \<Rightarrow> error + state"
  Start_res :: "Driver \<Rightarrow> event list \<Rightarrow> error option"
  DriverRemove_res :: "Driver \<Rightarrow> event list \<Rightarrow> error option"
  Stop_res :: "Host \<Rightarrow> event list \<Rightarrow> error option"
  RunSSHCommand_res :: "Host \<Rightarrow> string \<Rightarrow> event list \<Rightarrow> error + string"
  ConfigureAuth_res :: "Host \<Rightarrow> event list \<Rightarrow> error option"
  CacheMinikubeISOFromURL_res :: "string \<Rightarrow> event list \<Rightarrow> error option"
  DetectProvisioner_res :: "Driver \<Rightarrow> event list \<Rightarrow> error + string"
  Provision_res :: "string \<Rightarrow> string \<Rightarrow> AuthOptions \<Rightarrow> EngineOptions \<Rightarrow> event list \<Rightarrow> error option"
  exec_Output_res :: "string \<Rightarrow> string list \<Rightarrow> event list \<Rightarrow> error + string"

definition emit :: "event \<Rightarrow> world \<Rightarrow> world" where
  "emit e w = w\<lparr>trace := trace w @ [e]\<rparr>"

definition console_out :: "console_msg \<Rightarrow> world \<Rightarrow> world" where
  "console_out m w = w\<lparr>console := console w @ [m]\<rparr>"

subsubsection \<open>The machine store (\<^verbatim>\<open>libmachine.API\<close>)\<close>

text \<open>
  A store that does not fail answers from the map: \<open>Exists\<close> tells whether the name has a
  record, \<open>Load\<close> returns it, \<open>Save\<close> writes the record under its name, \<open>Remove\<close> deletes it.
  \<open>Create\<close> persists the record and creates the machine; when it fails, the collaborator
  tells whether the record had already been persisted.
\<close>

definition api_Exists :: "env \<Rightarrow> string \<Rightarrow> world \<Rightarrow> (error + bool) \<times> world" where
  "api_Exists env name w =
     ((case Exists_fault env name (trace w) of
         Some err \<Rightarrow> Inl err
       | None \<Rightarrow> Inr (store w name \<noteq> None)),
      emit (EvExists name) w)"

definition api_Load :: "env \<Rightarrow> string \<Rightarrow> world \<Rightarrow> (error + Host) \<times> world" where
  "api_Load env name w =
     ((case Load_fault env name (trace w) of
         Some err \<Rightarrow> Inl err
       | None \<Rightarrow> (case store w name of
                    None \<Rightarrow> Inl (ErrHostDoesNotExist name)
                  | Some h \<Rightarrow> Inr h)),
      emit (EvLoad name) w)"

definition api_Save :: "env \<Rightarrow> Host \<Rightarrow> world \<Rightarrow> error option \<times> world" where
  "api_Save env h w =
     (case Save_fault env h (trace w) of
        Some err \<Rightarrow> (Some err, emit (EvSave h) w)
      | None \<Rightarrow> (None, emit (EvSave h) (w\<lparr>store := (store w)(Name h \<mapsto> h)\<rparr>)))"

definition api_Remove :: "env \<Rightarrow> string \<Rightarrow> world \<Rightarrow> error option \<times> world" where
  "api_Remove env name w =
     (case Remove_fault env name (trace w) of
        Some err \<Rightarrow> (Some err, emit (EvRemove name) w)
      | None \<Rightarrow> (None, emit (EvRemove name) (w\<lparr>store := (store w)(name := None)\<rparr>)))"

definition api_NewHost :: "env \<Rightarrow> string \<Rightarrow> string \<Rightarrow> world \<Rightarrow> (error + Host) \<times> world" where
  "api_NewHost env kind data w = (NewHost_res env kind data (trace w), emit (EvNewHost kind data) w)"

definition api_Create :: "env \<Rightarrow> Host \<Rightarrow> world \<Rightarrow> error option \<times> world" where
  "api_Create env h w =
     (case Create_fault env h (trace w) of
        Some (err, persisted) \<Rightarrow>
          (Some err,
           emit (EvCreate h) (if persisted then w\<lparr>store := (store w)(Name h \<mapsto> h)\<rparr> else w))
      | None \<Rightarrow> (None, emit (EvCreate h) (w\<lparr>store := (store w)(Name h \<mapsto> h)\<rparr>)))"

subsubsection \<open>Drivers, hosts, provisioners, downloads and processes\<close>

definition Driver_GetState :: "env \<Rightarrow> Driver \<Rightarrow> world \<Rightarrow> (error + state) \<times> world" where
  "Driver_GetState env d w = (GetState_res env d (trace w), emit (EvGetState d) w)"

definition Driver_Start :: "env \<Rightarrow> Driver \<Rightarrow> world \<Rightarrow> error option \<times> world" where
  "Driver_Start env d w = (Start_res env d (trace w), emit (EvStart d) w)"

definition Driver_Remove :: "env \<Rightarrow> Driver \<Rightarrow> world \<Rightarrow> error option \<times> world" where
  "Driver_Remove env d w = (DriverRemove_res env d (trace w), emit (EvDriverRemove d) w)"

definition Host_Stop :: "env \<Rightarrow> Host \<Rightarrow> world \<Rightarrow> error option \<times> world" where
  "Host_Stop env h w = (Stop_res env h (trace w), emit (EvStop h) w)"

definition Host_RunSSHCommand :: "env \<Rightarrow> Host \<Rightarrow> string \<Rightarrow> world \<Rightarrow> (error + string) \<times> world" where
  "Host_RunSSHCommand env h cmd w =
     (RunSSHCommand_res env h cmd (trace w), emit (EvRunSSHCommand h cmd) w)"

definition Host_ConfigureAuth :: "env \<Rightarrow> Host \<Rightarrow> world \<Rightarrow> error option \<times> world" where
  "Host_ConfigureAuth env h w = (ConfigureAuth_res env h (trace w), emit (EvConfigureAuth h) w)"

definition CacheMinikubeISOFromURL :: "env \<Rightarrow> string \<Rightarrow> world \<Rightarrow> error option \<times> world" where
  "CacheMinikubeISOFromURL env url w =
     (CacheMinikubeISOFromURL_res env url (trace w), emit (EvCacheMinikubeISOFromURL url) w)"

definition DetectProvisioner :: "env \<Rightarrow> Driver \<Rightarrow> world \<Rightarrow> (error + string) \<times> world" where
  "DetectProvisioner env d w = (DetectProvisioner_res env d (trace w), emit (EvDetectProvisioner d) w)"

definition Provision ::
  "env \<Rightarrow> string \<Rightarrow> string \<Rightarrow> AuthOptions \<Rightarrow> EngineOptions \<Rightarrow> world \<Rightarrow> error option \<times> world" where
  "Provision env p swarm auth eng w =
     (Provision_res env p swarm auth eng (trace w), emit (EvProvision p swarm auth eng) w)"

definition exec_Output :: "env \<Rightarrow> string \<Rightarrow> string list \<Rightarrow> world \<Rightarrow> (error + string) \<times> world" where
  "exec_Output env cmd args w = (exec_Output_res env cmd args (trace w), emit (EvExec cmd args) w)"

subsection \<open>Creating and starting a host\<close>

definition engineOptions :: "env \<Rightarrow> MachineConfig \<Rightarrow> EngineOptions" where
  "engineOptions env config =
     \<lparr>Env = DockerEnv config,
      InsecureRegistry = [DefaultServiceCIDR env] @ InsecureRegistry_cfg config,
      RegistryMirror = RegistryMirror_cfg config,
      ArbitraryFlags = DockerOpt config\<rparr>"

text \<open>The texts of the three deprecation warnings (lines 245 to 262); the result of
  \<open>preCreateHost\<close> is always \<^verbatim>\<open>nil\<close>.\<close>

definition tab :: char where
  "tab = CHR 0x09"

definition kvm_deprecated :: string where
  "kvm_deprecated =
     (''The kvm driver is deprecated and support for it will be removed in a future release.''
              @ [newline] @ replicate 4 tab @ ''Please consider switching to the kvm2 driver, which is intended to replace the kvm driver.''
              @ [newline] @ replicate 4 tab @ ''See https://github.com/kubernetes/minikube/blob/master/docs/drivers.md#kvm2-driver for more information.''
              @ [newline] @ replicate 4 tab @ ''To disable this message, run [minikube config set WantShowDriverDeprecationNotification false]'')"

definition xhyve_deprecated :: string where
  "xhyve_deprecated =
     (''The xhyve driver is deprecated and support for it will be removed in a future release.''
              @ [newline] @ ''Please consider switching to the hyperkit driver, which is intended to replace the xhyve driver.''
              @ [newline] @ ''See https://github.com/kubernetes/minikube/blob/master/docs/drivers.md#hyperkit-driver for more information.''
              @ [newline] @ ''To disable this message, run [minikube config set WantShowDriverDeprecationNotification false]'')"

definition vmwarefusion_deprecated :: string where
  "vmwarefusion_deprecated =
     (''The vmwarefusion driver is deprecated and support for it will be removed in a future release.''
              @ [newline] @ replicate 4 tab @ ''Please consider switching to the new vmware unified driver, which is intended to replace the vmwarefusion driver.''
              @ [newline] @ replicate 4 tab @ ''See https://github.com/kubernetes/minikube/blob/master/docs/drivers.md#vmware-unified-driver for more information.''
              @ [newline] @ replicate 4 tab @ ''To disable this message, run [minikube config set WantShowDriverDeprecationNotification false]'')"

definition preCreateHost :: "env \<Rightarrow> MachineConfig \<Rightarrow> world \<Rightarrow> error option \<times> world" where
  "preCreateHost env config w =
     (if VMDriver config = ''kvm'' then
        (None, if ShowDriverDeprecationNotification env
               then console_out (Warning kvm_deprecated []) w else w)
      else if VMDriver config = ''xhyve'' then
        (None, if ShowDriverDeprecationNotification env
               then console_out (Warning xhyve_deprecated []) w else w)
      else if VMDriver config = ''vmwarefusion'' then
        (None, if ShowDriverDeprecationNotification env
               then console_out (Warning vmwarefusion_deprecated []) w else w)
      else (None, w))"

definition createHost :: "env \<Rightarrow> MachineConfig \<Rightarrow> world \<Rightarrow> (error + Host) \<times> world" where
  "createHost env config w =
     (case preCreateHost env config w of
        (Some err, w1) \<Rightarrow> (Inl err, w1)
      | (None, w1) \<Rightarrow>
          let w2 = console_out
                     (OutStyle ''starting-vm'' ''Creating %s VM (CPUs=%d, Memory=%dMB, Disk=%dMB) ...''
                        [VMDriver config, itoa (CPUs config), itoa (Memory config),
                         itoa (DiskSize config)]) w1
          in (case registry_Driver env (VMDriver config) of
                Inl err \<Rightarrow>
                  if err = ErrDriverNotFound
                  then (Inl (Exit_Usage ''unsupported driver: %s'' [VMDriver config]), w2)
                  else (Inl (Exit_WithError ''error getting driver'' err), w2)
              | Inr def \<Rightarrow>
                 (case (if VMDriver config \<noteq> ''none''
                        then CacheMinikubeISOFromURL env (MinikubeISO config) w2
                        else (None, w2)) of
                    (Some err, w3) \<Rightarrow> (Inl (Wrap err ''unable to cache ISO''), w3)
                  | (None, w3) \<Rightarrow>
                     let driver = ConfigCreator def config
                     in (case json_Marshal env driver of
                           Inl err \<Rightarrow> (Inl (Wrap err ''marshal''), w3)
                         | Inr data \<Rightarrow>
                            (case api_NewHost env (VMDriver config) data w3 of
                               (Inl err, w4) \<Rightarrow> (Inl (Wrap err ''new host''), w4)
                             | (Inr h0, w4) \<Rightarrow>
                                let h = h0\<lparr>HostOptions := (HostOptions h0)
                                          \<lparr>AuthOptions := (AuthOptions (HostOptions h0))
                                             \<lparr>CertDir := GetMinipath env,
                                              StorePath := GetMinipath env\<rparr>,
                                           EngineOptions := engineOptions env config\<rparr>\<rparr>
                                in (case api_Create env h w4 of
                                      (Some err, w5) \<Rightarrow>
                                        (Inl (Wrap err ''create''), emit (EvSleep 2) w5)
                                    | (None, w5) \<Rightarrow>
                                       (case api_Save env h w5 of
                                          (Some err, w6) \<Rightarrow> (Inl (Wrap err ''save''), w6)
                                        | (None, w6) \<Rightarrow> (Inr h, w6))))))))"

text \<open>
  \<open>StartHost\<close> on an existing record (\<open>StartHost_existing\<close>, lines 93 to 133) queries the
  state and then runs three parts: restart unless running (lines 99 to 109), provision when
  the recomputed options have an environment (lines 111 to 126), configure authentication
  (lines 128 to 133).
\<close>

definition StartHost_restart :: "env \<Rightarrow> Host \<Rightarrow> state \<Rightarrow> world \<Rightarrow> error option \<times> world" where
  "StartHost_restart env h s w =
     (if s = State_Running then
        (None, console_out (OutStyle ''running'' ''Re-using the currently running %s VM for %q ...''
                              [Driver_DriverName (Driver h), GetMachineName env]) w)
      else
        let w1 = console_out (OutStyle ''restarting'' ''Restarting existing %s VM for %q ...''
                                [Driver_DriverName (Driver h), GetMachineName env]) w
        in (case Driver_Start env (Driver h) w1 of
              (Some err, w2) \<Rightarrow> (Some (Wrap err ''start''), w2)
            | (None, w2) \<Rightarrow>
               (case api_Save env h w2 of
                  (Some err, w3) \<Rightarrow> (Some (Wrap err ''save''), w3)
                | (None, w3) \<Rightarrow> (None, w3))))"

definition StartHost_provision ::
  "env \<Rightarrow> MachineConfig \<Rightarrow> Host \<Rightarrow> world \<Rightarrow> (error + Host) \<times> world" where
  "StartHost_provision env config h w =
     (let e = engineOptions env config;
          w1 = console_out (OutStyle ''waiting'' ''Waiting for SSH access ...'' []) w
      in if length (Env e) > 0 then
           let h' = h\<lparr>HostOptions := (HostOptions h)
                       \<lparr>EngineOptions := (EngineOptions (HostOptions h))\<lparr>Env := Env e\<rparr>\<rparr>\<rparr>
           in (case DetectProvisioner env (Driver h') w1 of
                 (Inl err, w2) \<Rightarrow> (Inl (Wrap err ''detecting provisioner''), w2)
               | (Inr provisioner, w2) \<Rightarrow>
                  (case Provision env provisioner (SwarmOptions (HostOptions h'))
                          (AuthOptions (HostOptions h')) (EngineOptions (HostOptions h')) w2 of
                     (Some err, w3) \<Rightarrow> (Inl (Wrap err ''provision''), w3)
                   | (None, w3) \<Rightarrow> (Inr h', w3)))
         else (Inr h, w1))"

definition StartHost_auth :: "env \<Rightarrow> Host \<Rightarrow> world \<Rightarrow> (error + Host) \<times> world" where
  "StartHost_auth env h w =
     (if Driver_DriverName (Driver h) \<noteq> ''none'' then
        (case Host_ConfigureAuth env h w of
           (Some err, w1) \<Rightarrow>
             (Inl (RetriableError (Wrap err ''Error configuring auth on host'')), w1)
         | (None, w1) \<Rightarrow> (Inr h, w1))
      else (Inr h, w))"

definition StartHost_existing ::
  "env \<Rightarrow> MachineConfig \<Rightarrow> Host \<Rightarrow> world \<Rightarrow> (error + Host) \<times> world" where
  "StartHost_existing env config h w =
     (case Driver_GetState env (Driver h) w of
        (Inl err, w1) \<Rightarrow> (Inl (Wrap err ''Error getting state for host''), w1)
      | (Inr s, w1) \<Rightarrow>
         (case StartHost_restart env h s w1 of
            (Some err, w2) \<Rightarrow> (Inl err, w2)
          | (None, w2) \<Rightarrow>
             (case StartHost_provision env config h w2 of
                (Inl err, w3) \<Rightarrow> (Inl err, w3)
              | (Inr h', w3) \<Rightarrow> StartHost_auth env h' w3)))"

text \<open>The console output of lines 82 to 91.\<close>

definition StartHost_notice :: "env \<Rightarrow> MachineConfig \<Rightarrow> Host \<Rightarrow> bool \<Rightarrow> world \<Rightarrow> world" where
  "StartHost_notice env config h exists w =
     (if Driver_DriverName (Driver h) \<noteq> VMDriver config then
        console_out (Out [newline])
          (console_out
             (Warning ''Alternatively, you may delete the existing VM using `minikube delete -p %s`''
                [GetMachineName env])
          (console_out
             (Warning ''To switch drivers, you may create a new VM using `minikube start -p <name> --vm-driver=%s`''
                [VMDriver config])
          (console_out
             (Warning ''Ignoring --vm-driver=%s, as the existing %q VM was created using the %s driver.''
                [VMDriver config, GetMachineName env, Driver_DriverName (Driver h)])
          (console_out (Out [newline]) w))))
      else if exists \<and> GetMachineName env = DefaultMachineName env then
        console_out
          (OutStyle ''tip''
             (''Tip: To create a new cluster, use '' @ [CHR 0x27] @ ''minikube start -p <new name>''
              @ [CHR 0x27] @ '' or use '' @ [CHR 0x27] @ ''minikube delete''
              @ [CHR 0x27] @ '' to delete this one.'')
             []) w
      else w)"

definition StartHost :: "env \<Rightarrow> MachineConfig \<Rightarrow> world \<Rightarrow> (error + Host) \<times> world" where
  "StartHost env config w =
     (case api_Exists env (GetMachineName env) w of
        (Inl err, w1) \<Rightarrow> (Inl (Wrap err (''machine name: '' @ GetMachineName env)), w1)
      | (Inr exists, w1) \<Rightarrow>
         if \<not> exists then createHost env config w1
         else
           (case api_Load env (GetMachineName env) w1 of
              (Inl err, w2) \<Rightarrow>
                (Inl (Wrap err (''Error loading existing host. Please try running ''
                        @ ''[minikube delete], then run [minikube start] again.'')), w2)
            | (Inr h, w2) \<Rightarrow>
                StartHost_existing env config h (StartHost_notice env config h exists w2)))"

subsection \<open>Stopping, deleting and querying a host\<close>

text \<open>\<open>tryPowerOff\<close> returns nothing: the result of the command is only logged.\<close>

definition tryPowerOff :: "env \<Rightarrow> Host \<Rightarrow> world \<Rightarrow> world" where
  "tryPowerOff env h w =
     (if Driver_DriverName (Driver h) = ''none'' then w
      else
        (case Driver_GetState env (Driver h) w of
           (Inl err, w1) \<Rightarrow> w1
         | (Inr s, w1) \<Rightarrow>
            if s \<noteq> State_Running then w1
            else
              let w2 = console_out (OutStyle ''shutdown'' ''Powering off %q via SSH ...''
                                      [GetMachineName env]) w1
              in snd (Host_RunSSHCommand env h ''sudo poweroff'' w2)))"

definition StopHost :: "env \<Rightarrow> world \<Rightarrow> error option \<times> world" where
  "StopHost env w =
     (case api_Load env (GetMachineName env) w of
        (Inl err, w1) \<Rightarrow> (Some (Wrap err ''load''), w1)
      | (Inr host, w1) \<Rightarrow>
         let w2 = console_out (OutStyle ''stopping'' ''Stopping %q in %s ...''
                                 [GetMachineName env, DriverName host]) w1
         in (case Host_Stop env host w2 of
               (Some err, w3) \<Rightarrow>
                 (case err of
                    ErrHostAlreadyInState n st \<Rightarrow>
                      if st = State_Stopped then (None, w3)
                      else (Some (RetriableError (Wrap err (''Stop: '' @ GetMachineName env))), w3)
                  | _ \<Rightarrow> (Some (RetriableError (Wrap err (''Stop: '' @ GetMachineName env))), w3))
             | (None, w3) \<Rightarrow> (None, w3)))"

definition DeleteHost :: "env \<Rightarrow> world \<Rightarrow> error option \<times> world" where
  "DeleteHost env w =
     (case api_Load env (GetMachineName env) w of
        (Inl err, w1) \<Rightarrow> (Some (Wrap err ''load''), w1)
      | (Inr host, w1) \<Rightarrow>
         let w2 = tryPowerOff env host w1;
             w3 = console_out (OutStyle ''deleting-host'' ''Deleting %q from %s ...''
                                 [GetMachineName env, DriverName host]) w2
         in (case Driver_Remove env (Driver host) w3 of
               (Some err, w4) \<Rightarrow> (Some (Wrap err ''host remove''), w4)
             | (None, w4) \<Rightarrow>
                (case api_Remove env (GetMachineName env) w4 of
                   (Some err, w5) \<Rightarrow> (Some (Wrap err ''api remove''), w5)
                 | (None, w5) \<Rightarrow> (None, w5))))"

definition GetHostStatus :: "env \<Rightarrow> world \<Rightarrow> (error + string) \<times> world" where
  "GetHostStatus env w =
     (case api_Exists env (GetMachineName env) w of
        (Inl err, w1) \<Rightarrow> (Inl (Wrap err (GetMachineName env @ '' exists'')), w1)
      | (Inr exists, w1) \<Rightarrow>
         if \<not> exists then (Inr (State_String env State_None), w1)
         else
           (case api_Load env (GetMachineName env) w1 of
              (Inl err, w2) \<Rightarrow> (Inl (Wrap err ''load''), w2)
            | (Inr host, w2) \<Rightarrow>
               (case Driver_GetState env (Driver host) w2 of
                  (Inl err, w3) \<Rightarrow> (Inl (Wrap err ''state''), w3)
                | (Inr s, w3) \<Rightarrow> (Inr (State_String env s), w3))))"

subsection \<open>The address of the host as the guest sees it\<close>

definition GetVMHostIP :: "env \<Rightarrow> Host \<Rightarrow> world \<Rightarrow> (error + IP) \<times> world" where
  \<open>GetVMHostIP env host w =
     (if DriverName host = ''kvm'' then (Inr (IPv4 192 168 42 1), w)
      else if DriverName host = ''kvm2'' then (Inr (IPv4 192 168 39 1), w)
      else if DriverName host = ''hyperv'' then
        (case index (FindStringSubmatch ''"VSwitch": "'' ''",'' (RawDriver host)) 1 of
           Inl panic \<Rightarrow> (Inl panic, w)
         | Inr hypervVirtualSwitch \<Rightarrow>
            (case getIPForInterface (network env) (''vEthernet ('' @ hypervVirtualSwitch @ '')'') of
               Inl err \<Rightarrow> (Inl (Wrap err (''ip for interface ('' @ hypervVirtualSwitch @ '')'')), w)
             | Inr ip \<Rightarrow> (Inr ip, w)))
      else if DriverName host = ''virtualbox'' then
        (case exec_Output env (detectVBoxManageCmd env)
                [''showvminfo'', Name host, ''--machinereadable''] w of
           (Inl err, w1) \<Rightarrow> (Inl (Wrap err ''vboxmanage''), w1)
         | (Inr out, w1) \<Rightarrow>
            (case index (FindStringSubmatch ''hostonlyadapter2="'' ''"'' out) 1 of
               Inl panic \<Rightarrow> (Inl panic, w1)
             | Inr iface \<Rightarrow>
                (case getIPForInterface (network env) iface of
                   Inl err \<Rightarrow> (Inl (Wrap err ''Error getting VM/Host IP address''), w1)
                 | Inr ip \<Rightarrow> (Inr ip, w1))))
      else if DriverName host = ''xhyve'' \<or> DriverName host = ''hyperkit'' then
        (Inr (IPv4 192 168 64 1), w)
      else (Inl (New ''Error, attempted to get host ip address for unsupported driver''), w))\<close>

subsection \<open>Vocabulary of the properties\<close>

text \<open>Classes of events: the store's create, and the restart (start and save) of a machine.\<close>

fun is_create :: "event \<Rightarrow> bool" where
  "is_create (EvCreate h) = True"
| "is_create e = False"

fun is_restart :: "event \<Rightarrow> bool" where
  "is_restart (EvStart d) = True"
| "is_restart (EvSave h) = True"
| "is_restart e = False"

text \<open>The record that \<open>createHost\<close> makes of a new host (lines 302 to 304).\<close>

definition created_host :: "env \<Rightarrow> MachineConfig \<Rightarrow> Host \<Rightarrow> Host" where
  "created_host env config h0 =
     h0\<lparr>HostOptions := (HostOptions h0)
           \<lparr>AuthOptions := (AuthOptions (HostOptions h0))
              \<lparr>CertDir := GetMinipath env, StorePath := GetMinipath env\<rparr>,
            EngineOptions := engineOptions env config\<rparr>\<rparr>"

text \<open>A record with the environment of its engine options replaced.\<close>

definition with_Env :: "Host \<Rightarrow> string list \<Rightarrow> Host" where
  "with_Env h vars =
     h\<lparr>HostOptions := (HostOptions h)
          \<lparr>EngineOptions := (EngineOptions (HostOptions h))\<lparr>Env := vars\<rparr>\<rparr>\<rparr>"

text \<open>Calls of \<open>StartHost\<close> in succession, whatever each returns.\<close>

fun StartHosts :: "env \<Rightarrow> MachineConfig list \<Rightarrow> world \<Rightarrow> world" where
  "StartHosts env [] w = w"
| "StartHosts env (config # configs) w = StartHosts env configs (snd (StartHost env config w))"

text \<open>
  What the loop of \<open>getIPForInterface\<close> looks for in an address: the IPv4 form of a
  \<^verbatim>\<open>*net.IPNet\<close>.
\<close>

definition IPNet_To4 :: "Addr \<Rightarrow> IP option" where
  "IPNet_To4 a = (case a of IPNet ip msk \<Rightarrow> To4 ip | _ \<Rightarrow> None)"

text \<open>
  The contract of the interface resolution in the words of the specification: the first
  address that has a valid IPv4 representation. \<open>is_IPNet\<close> tells the addresses that are
  \<^verbatim>\<open>*net.IPNet\<close>, the type in which \<^verbatim>\<open>Interface.Addrs\<close> returns the addresses assigned to an
  interface.
\<close>

fun is_IPNet :: "Addr \<Rightarrow> bool" where
  "is_IPNet (IPNet ip msk) = True"
| "is_IPNet a = False"

fun Addr_IP :: "Addr \<Rightarrow> IP option" where
  "Addr_IP (IPNet ip msk) = Some ip"
| "Addr_IP (IPAddr ip zone) = Some ip"
| "Addr_IP (OtherAddr a) = None"

fun spec_first_IPv4 :: "Addr list \<Rightarrow> IP option" where
  "spec_first_IPv4 [] = None"
| "spec_first_IPv4 (a # addrs) =
     (case Option.bind (Addr_IP a) To4 of
        Some ip4 \<Rightarrow> Some ip4
      | None \<Rightarrow> spec_first_IPv4 addrs)"

subsection \<open>A small simulated backend\<close>

text \<open>
  Concrete collaborators on which the properties are exercised: a store that never fails,
  a registry with two drivers, and a driver whose state follows the calls made so far.
\<close>

definition demo_addrs :: "Addr list" where
  "demo_addrs =
     [IPNet [254, 128, 0, 0, 0, 0, 0, 0, 10, 0, 39, 255, 254, 0, 0, 1]
            [255, 255, 255, 255, 255, 255, 255, 255, 0, 0, 0, 0, 0, 0, 0, 0],
      IPNet (IPv4 10 0 0 2) [255, 255, 255, 0],
      IPNet [192, 168, 99, 1] [255, 255, 255, 0]]"

definition demo_network :: network where
  "demo_network =
     \<lparr>net_InterfaceByName =
        (\<lambda>n. if n = ''eth0'' then Inr (Interface 2 n)
             else Inl (External ''no such network interface'')),
      Interface_Addrs = (\<lambda>i. Inr demo_addrs)\<rparr>"

fun demo_step :: "state \<Rightarrow> event \<Rightarrow> state" where
  "demo_step s (EvCreate h) = State_Running"
| "demo_step s (EvStart d) = State_Running"
| "demo_step s (EvStop h) = State_Stopped"
| "demo_step s (EvRunSSHCommand h cmd) = (if cmd = ''sudo poweroff'' then State_Stopped else s)"
| "demo_step s (EvDriverRemove d) = State_None"
| "demo_step s e = s"

definition demo_GetState :: "Driver \<Rightarrow> event list \<Rightarrow> error + state" where
  "demo_GetState d tr = Inr (foldl demo_step State_None tr)"

definition demo_Stop :: "Host \<Rightarrow> event list \<Rightarrow> error option" where
  "demo_Stop h tr =
     (if foldl demo_step State_None tr = State_Stopped
      then Some (ErrHostAlreadyInState (Name h) State_Stopped) else None)"

definition demo_Stop_timeout :: "Host \<Rightarrow> event list \<Rightarrow> error option" where
  "demo_Stop_timeout h tr = Some (External ''timeout'')"

definition demo_DriverRemove_busy :: "Driver \<Rightarrow> event list \<Rightarrow> error option" where
  "demo_DriverRemove_busy d tr = Some (External ''machine is locked'')"

fun demo_State_String :: "state \<Rightarrow> string" where
  "demo_State_String State_None = []"
| "demo_State_String State_Running = ''Running''"
| "demo_State_String State_Paused = ''Paused''"
| "demo_State_String State_Saved = ''Saved''"
| "demo_State_String State_Stopped = ''Stopped''"
| "demo_State_String State_Stopping = ''Stopping''"
| "demo_State_String State_Starting = ''Starting''"
| "demo_State_String State_Error = ''Error''"
| "demo_State_String State_Timeout = ''Timeout''"

definition demo_options :: HostOptions where
  "demo_options =
     \<lparr>AuthOptions = \<lparr>CertDir = [], StorePath = []\<rparr>,
      EngineOptions = \<lparr>Env = [], InsecureRegistry = [], RegistryMirror = [], ArbitraryFlags = []\<rparr>,
      SwarmOptions = []\<rparr>"

definition demo_NewHost :: "string \<Rightarrow> string \<Rightarrow> event list \<Rightarrow> error + Host" where
  "demo_NewHost kind data tr =
     Inr \<lparr>Name = ''minikube'', DriverName = kind, Driver = MkDriver kind data,
          RawDriver = data, HostOptions = demo_options\<rparr>"

definition demo_registry :: "string \<Rightarrow> error + DriverDef" where
  "demo_registry kind =
     (if kind = ''virtualbox'' \<or> kind = ''none''
      then Inr \<lparr>ConfigCreator = (\<lambda>config. ''{}'')\<rparr>
      else Inl ErrDriverNotFound)"

definition demo_env :: env where
  "demo_env =
     \<lparr>GetMachineName = ''minikube'',
      DefaultMachineName = ''minikube'',
      DefaultServiceCIDR = ''10.96.0.0/12'',
      GetMinipath = ''/home/user/.minikube'',
      ShowDriverDeprecationNotification = True,
      detectVBoxManageCmd = ''VBoxManage'',
      registry_Driver = demo_registry,
      json_Marshal = Inr,
      State_String = demo_State_String,
      network = demo_network,
      Exists_fault = (\<lambda>name tr. None),
      Load_fault = (\<lambda>name tr. None),
      Save_fault = (\<lambda>h tr. None),
      Remove_fault = (\<lambda>name tr. None),
      NewHost_res = demo_NewHost,
      Create_fault = (\<lambda>h tr. None),
      GetState_res = demo_GetState,
      Start_res = (\<lambda>d tr. None),
      DriverRemove_res = (\<lambda>d tr. None),
      Stop_res = demo_Stop,
      RunSSHCommand_res = (\<lambda>h cmd tr. Inl (External ''connection closed'')),
      ConfigureAuth_res = (\<lambda>h tr. None),
      CacheMinikubeISOFromURL_res = (\<lambda>url tr. None),
      DetectProvisioner_res = (\<lambda>d tr. Inr ''buildroot''),
      Provision_res = (\<lambda>p swarm auth eng tr. None),
      exec_Output_res = (\<lambda>cmd args tr. Inr [])\<rparr>"

definition demo_host :: Host where
  "demo_host =
     \<lparr>Name = ''minikube'', DriverName = ''virtualbox'', Driver = MkDriver ''virtualbox'' ''{}'',
      RawDriver = ''{}'',
      HostOptions =
        \<lparr>AuthOptions = \<lparr>CertDir = ''/home/user/.minikube'', StorePath = ''/home/user/.minikube''\<rparr>,
         EngineOptions = \<lparr>Env = [], InsecureRegistry = [''10.96.0.0/12''], RegistryMirror = [],
                          ArbitraryFlags = []\<rparr>,
         SwarmOptions = []\<rparr>\<rparr>"

definition demo_config :: MachineConfig where
  "demo_config =
     \<lparr>VMDriver = ''virtualbox'', CPUs = 2, Memory = 2048, DiskSize = 20000,
      MinikubeISO = ''https://storage.googleapis.com/minikube/iso/minikube.iso'',
      DockerEnv = [], InsecureRegistry_cfg = [], RegistryMirror_cfg = [], DockerOpt = []\<rparr>"

definition demo_fresh :: world where
  "demo_fresh = \<lparr>store = Map.empty, trace = [], console = []\<rparr>"

definition demo_existing :: world where
  "demo_existing =
     \<lparr>store = [''minikube'' \<mapsto> demo_host], trace = [EvCreate demo_host, EvSave demo_host],
      console = []\<rparr>"

definition demo_stopped :: world where
  "demo_stopped = emit (EvStop demo_host) demo_existing"

definition demo_config_registry :: MachineConfig where
  "demo_config_registry =
     demo_config\<lparr>DockerEnv := [''HTTP_PROXY=http://proxy:3128''],
                 InsecureRegistry_cfg := [''registry.local:5000'']\<rparr>"

section \<open>Properties\<close>

lemmas calls =
  api_Exists_def api_Load_def api_Save_def api_Remove_def api_NewHost_def api_Create_def
  Driver_GetState_def Driver_Start_def Driver_Remove_def Host_Stop_def Host_RunSSHCommand_def
  Host_ConfigureAuth_def CacheMinikubeISOFromURL_def DetectProvisioner_def Provision_def
  exec_Output_def emit_def console_out_def

lemmas demo =
  demo_env_def demo_host_def demo_config_def demo_fresh_def demo_existing_def demo_options_def
  demo_NewHost_def demo_registry_def demo_GetState_def demo_Stop_def demo_network_def
  demo_addrs_def

lemmas StartHost_defs =
  StartHost_def StartHost_existing_def StartHost_notice_def StartHost_restart_def
  StartHost_provision_def StartHost_auth_def createHost_def preCreateHost_def engineOptions_def

subsection \<open>Mount commands\<close>

text \<open>
  C8. For ip 10.0.0.2, path /mnt/x, port 5000, version 9p2000.L, uid 1000, gid 1000 and msize
  262144, \<open>GetMountCommand\<close> returns a script with exactly one \<^verbatim>\<open>mkdir\<close>, exactly one
  \<^verbatim>\<open>mount -t 9p\<close>, which has the options
  \<^verbatim>\<open>trans=tcp,port=5000,dfltuid=1000,dfltgid=1000,version=9p2000.L,msize=262144 10.0.0.2 /mnt/x\<close>,
  and exactly one \<^verbatim>\<open>chmod 775\<close>, which is on /mnt/x; and \<open>GetMountCleanupCommand\<close> of
  /mnt/x is exactly \<^verbatim>\<open>sudo umount /mnt/x;\<close>.
\<close>

theorem mount_command_shape:
  "(\<exists>script.
      GetMountCommand other (IPv4 10 0 0 2) ''/mnt/x'' ''5000'' ''9p2000.L'' 1000 1000 262144
        = Inr script
      \<and> occurrences ''mkdir'' script = 1
      \<and> occurrences ''mkdir -p /mnt/x'' script = 1
      \<and> occurrences ''mount -t 9p'' script = 1
      \<and> occurrences ''mount -t 9p -o trans=tcp,port=5000,dfltuid=1000,dfltgid=1000,version=9p2000.L,msize=262144 10.0.0.2 /mnt/x;'' script = 1
      \<and> occurrences ''chmod 775'' script = 1
      \<and> occurrences ''chmod 775 /mnt/x'' script = 1)
   \<and> GetMountCleanupCommand ''/mnt/x'' = ''sudo umount /mnt/x;''"
  by (simp add: GetMountCommand_def GetMountCleanupCommand_def IP_String_def To4_def isZeros_def
      IPv4_def v4InV6Prefix_def html_escape_def itoa_def nat_digits.simps newline_def Let_def)

subsection \<open>Interface addresses\<close>

lemma getIPForInterface_loop_map_filter:
  "getIPForInterface_loop addrs =
     (case List.map_filter IPNet_To4 addrs of [] \<Rightarrow> None | ip # _ \<Rightarrow> Some ip)"
proof (induction addrs)
  case Nil
  then show ?case by simp
next
  case (Cons a addrs)
  then show ?case
    by (cases a) (simp_all add: IPNet_To4_def split: option.splits)
qed

lemma getIPForInterface_loop_spec:
  "list_all is_IPNet addrs \<Longrightarrow> getIPForInterface_loop addrs = spec_first_IPv4 addrs"
proof (induction addrs)
  case Nil
  then show ?case by simp
next
  case (Cons a addrs)
  then show ?case
    by (cases a) (simp_all split: option.splits)
qed

text \<open>
  C9. \<open>getIPForInterface\<close> goes through the addresses of the interface in the order in
  which \<^verbatim>\<open>Interface.Addrs\<close> returns them and returns the IPv4 form of the first \<^verbatim>\<open>*net.IPNet\<close>
  that has one; addresses without an IPv4 form, the IPv6 addresses, are passed over. On the
  addresses as \<^verbatim>\<open>Interface.Addrs\<close> returns them, all of type \<^verbatim>\<open>*net.IPNet\<close>, this is the first
  address that has a valid IPv4 representation, in the words of the specification. It fails with
  the error \<^verbatim>\<open>Error finding IPV4 address for\<close> the name when no address has an IPv4 form, also
  when the interface is not found or its addresses cannot be listed.
\<close>

theorem getIPForInterface_first_IPv4:
  "(net_InterfaceByName nw name = Inr ifc \<and> Interface_Addrs nw ifc = Inr addrs \<longrightarrow>
      getIPForInterface nw name =
        (case List.map_filter IPNet_To4 addrs of
           [] \<Rightarrow> Inl (New (''Error finding IPV4 address for '' @ name))
         | ip # _ \<Rightarrow> Inr ip)
      \<and> (list_all is_IPNet addrs \<longrightarrow>
            getIPForInterface nw name =
              (case spec_first_IPv4 addrs of
                 None \<Rightarrow> Inl (New (''Error finding IPV4 address for '' @ name))
               | Some ip \<Rightarrow> Inr ip)))
   \<and> (net_InterfaceByName nw name = Inr ifc \<and> Interface_Addrs nw ifc = Inl err \<longrightarrow>
      getIPForInterface nw name = Inl (New (''Error finding IPV4 address for '' @ name)))
   \<and> (net_InterfaceByName nw name = Inl err \<longrightarrow>
      getIPForInterface nw name = Inl (New (''Error finding IPV4 address for '' @ name)))"
proof -
  have "getIPForInterface nw name =
          (case spec_first_IPv4 addrs of
             None \<Rightarrow> Inl (New (''Error finding IPV4 address for '' @ name))
           | Some ip \<Rightarrow> Inr ip)"
    if "net_InterfaceByName nw name = Inr ifc" "Interface_Addrs nw ifc = Inr addrs"
      "list_all is_IPNet addrs"
    using that by (simp add: getIPForInterface_def getIPForInterface_loop_spec)
  then show ?thesis
    by (simp add: getIPForInterface_def getIPForInterface_loop_map_filter split: list.splits)
qed

theorem getIPForInterface_first_IPv4_witness:
  "getIPForInterface demo_network ''eth0'' = Inr [10, 0, 0, 2]
   \<and> list_all is_IPNet demo_addrs
   \<and> spec_first_IPv4 demo_addrs = Some [10, 0, 0, 2]
   \<and> getIPForInterface demo_network ''eth1'' = Inl (New ''Error finding IPV4 address for eth1'')"
  using getIPForInterface_first_IPv4
          [of demo_network "''eth0''" "Interface 2 ''eth0''" demo_addrs]
        getIPForInterface_first_IPv4
          [of demo_network "''eth1''" _ _ "External ''no such network interface''"]
  by (simp add: demo_network_def demo_addrs_def IPNet_To4_def To4_def isZeros_def IPv4_def
      v4InV6Prefix_def)

subsection \<open>The address of the host\<close>

text \<open>
  C10 fails on the code. For a host of the \<^verbatim>\<open>hyperv\<close> driver whose raw driver configuration
  has no \<^verbatim>\<open>"VSwitch": "...",\<close> entry, \<open>GetVMHostIP\<close> indexes the empty result of the match
  and panics: it returns neither an address nor an error. The same happens for a host of the
  \<^verbatim>\<open>virtualbox\<close> driver when the output of the management tool has no \<^verbatim>\<open>hostonlyadapter2\<close>
  entry. A network interface that does not exist is no crash: \<open>getIPForInterface\<close> returns
  an error.
\<close>

theorem GetVMHostIP_no_match_panics:
  "fst (GetVMHostIP env (host\<lparr>DriverName := ''hyperv'', RawDriver := ''{}''\<rparr>) w)
     = Inl (Panic ''index out of range'')
   \<and> fst (GetVMHostIP demo_env demo_host demo_existing) = Inl (Panic ''index out of range'')
   \<and> \<not> returned_error (Panic ''index out of range'')
   \<and> getIPForInterface demo_network ''eth1'' = Inl (New ''Error finding IPV4 address for eth1'')
   \<and> returned_error (New ''Error finding IPV4 address for eth1'')"
  by (simp add: GetVMHostIP_def index_def exec_Output_def getIPForInterface_def demo)

subsection \<open>Unsupported drivers\<close>

text \<open>
  C7, as the code has it. For a driver kind that \<open>GetVMHostIP\<close> does not recognise, it fails
  with the unsupported-driver error and has no effect at all: the world is as it was. When the
  registry answers \<open>ErrDriverNotFound\<close> for the requested kind, \<open>createHost\<close> does not return
  an error: it ends the process with the usage exit \<^verbatim>\<open>unsupported driver\<close>, after it has printed
  the deprecation warning of the kind, if any, and the line that announces the creation. No
  collaborator has been called and the store is as it was. For \<open>StartHost\<close> on a name without
  a record, the only call is the existence check.
\<close>

theorem unsupported_driver:
  "(DriverName host \<notin> {''kvm'', ''kvm2'', ''hyperv'', ''virtualbox'', ''xhyve'', ''hyperkit''} \<longrightarrow>
      GetVMHostIP env host w
        = (Inl (New ''Error, attempted to get host ip address for unsupported driver''), w))
   \<and> (registry_Driver env (VMDriver config) = Inl ErrDriverNotFound \<longrightarrow>
      fst (createHost env config w) = Inl (Exit_Usage ''unsupported driver: %s'' [VMDriver config])
      \<and> store (snd (createHost env config w)) = store w
      \<and> trace (snd (createHost env config w)) = trace w
      \<and> console (snd (createHost env config w))
          = console (snd (preCreateHost env config w))
            @ [OutStyle ''starting-vm'' ''Creating %s VM (CPUs=%d, Memory=%dMB, Disk=%dMB) ...''
                 [VMDriver config, itoa (CPUs config), itoa (Memory config),
                  itoa (DiskSize config)]])
   \<and> (registry_Driver env (VMDriver config) = Inl ErrDriverNotFound
        \<and> Exists_fault env (GetMachineName env) (trace w) = None
        \<and> store w (GetMachineName env) = None \<longrightarrow>
      fst (StartHost env config w) = Inl (Exit_Usage ''unsupported driver: %s'' [VMDriver config])
      \<and> store (snd (StartHost env config w)) = store w
      \<and> trace (snd (StartHost env config w)) = trace w @ [EvExists (GetMachineName env)])"
  by (simp add: GetVMHostIP_def createHost_def preCreateHost_def StartHost_def api_Exists_def
      emit_def console_out_def Let_def)

theorem unsupported_driver_witness:
  "fst (GetVMHostIP demo_env (demo_host\<lparr>DriverName := ''vmware''\<rparr>) demo_existing)
     = Inl (New ''Error, attempted to get host ip address for unsupported driver'')
   \<and> snd (GetVMHostIP demo_env (demo_host\<lparr>DriverName := ''vmware''\<rparr>) demo_existing)
     = demo_existing
   \<and> fst (StartHost demo_env (demo_config\<lparr>VMDriver := ''bhyve''\<rparr>) demo_fresh)
     = Inl (Exit_Usage ''unsupported driver: %s'' [''bhyve''])
   \<and> trace (snd (StartHost demo_env (demo_config\<lparr>VMDriver := ''bhyve''\<rparr>) demo_fresh))
     = [EvExists ''minikube'']
   \<and> store (snd (StartHost demo_env (demo_config\<lparr>VMDriver := ''bhyve''\<rparr>) demo_fresh))
        ''minikube'' = None
   \<and> trace (snd (createHost demo_env (demo_config\<lparr>VMDriver := ''bhyve''\<rparr>) demo_fresh)) = []"
  using unsupported_driver [of "demo_host\<lparr>DriverName := ''vmware''\<rparr>" demo_env demo_existing
          "demo_config\<lparr>VMDriver := ''bhyve''\<rparr>"]
        unsupported_driver [of "demo_host\<lparr>DriverName := ''vmware''\<rparr>" demo_env demo_fresh
          "demo_config\<lparr>VMDriver := ''bhyve''\<rparr>"]
  by (simp add: demo)

text \<open>
  C7, as the specification states it, fails: for the unregistered kind \<^verbatim>\<open>bhyve\<close>, \<open>createHost\<close>
  ends in the usage exit, which is not a returned error, and by then the console, empty
  before, has the line that announces the creation.
\<close>

theorem createHost_unsupported_prints:
  "fst (createHost demo_env (demo_config\<lparr>VMDriver := ''bhyve''\<rparr>) demo_fresh)
     = Inl (Exit_Usage ''unsupported driver: %s'' [''bhyve''])
   \<and> \<not> returned_error (Exit_Usage ''unsupported driver: %s'' [''bhyve''])
   \<and> console demo_fresh = []
   \<and> console (snd (createHost demo_env (demo_config\<lparr>VMDriver := ''bhyve''\<rparr>) demo_fresh))
     = [OutStyle ''starting-vm'' ''Creating %s VM (CPUs=%d, Memory=%dMB, Disk=%dMB) ...''
          [''bhyve'', ''2'', ''2048'', ''20000'']]"
  by (simp add: createHost_def preCreateHost_def console_out_def demo itoa_def nat_digits.simps
      Let_def)

subsection \<open>Stopping\<close>

text \<open>
  C5. When the record loads, \<open>StopHost\<close> calls the host's stop once. If the stop fails with
  the already-in-state error for the state Stopped, \<open>StopHost\<close> returns no error; if it fails
  with any other error, \<open>StopHost\<close> returns that error wrapped in a retriable error; if it
  succeeds, \<open>StopHost\<close> returns no error.
\<close>

theorem StopHost_already_stopped:
  assumes "Load_fault env (GetMachineName env) (trace w) = None"
    and "store w (GetMachineName env) = Some host"
  shows "(case Stop_res env host (trace w @ [EvLoad (GetMachineName env)]) of
            None \<Rightarrow> fst (StopHost env w) = None
          | Some err \<Rightarrow>
              (if \<exists>n. err = ErrHostAlreadyInState n State_Stopped
               then fst (StopHost env w) = None
               else fst (StopHost env w)
                      = Some (RetriableError (Wrap err (''Stop: '' @ GetMachineName env)))))
         \<and> trace (snd (StopHost env w)) = trace w @ [EvLoad (GetMachineName env), EvStop host]
         \<and> store (snd (StopHost env w)) = store w"
  using assms
  by (simp add: StopHost_def api_Load_def Host_Stop_def emit_def console_out_def Let_def
      split: option.split error.split)

theorem StopHost_already_stopped_witness:
  "fst (StopHost demo_env (emit (EvStop demo_host) demo_existing)) = None
   \<and> fst (StopHost (demo_env\<lparr>Stop_res := demo_Stop_timeout\<rparr>) demo_existing)
       = Some (RetriableError (Wrap (External ''timeout'') ''Stop: minikube''))
   \<and> fst (StopHost demo_env demo_existing) = None"
  using StopHost_already_stopped [of demo_env "emit (EvStop demo_host) demo_existing" demo_host]
        StopHost_already_stopped [of "demo_env\<lparr>Stop_res := demo_Stop_timeout\<rparr>" demo_existing
          demo_host]
        StopHost_already_stopped [of demo_env demo_existing demo_host]
  by (simp add: demo emit_def demo_Stop_timeout_def)

subsection \<open>Status\<close>

text \<open>
  C6. When the store reports that the machine name has no record, \<open>GetHostStatus\<close> returns
  the text of the state None and no error, after the existence check alone. When there is a
  record, it loads the record, then queries the driver's state, and returns the text of the
  state that this query returned.
\<close>

theorem GetHostStatus_absent_or_state:
  assumes "Exists_fault env (GetMachineName env) (trace w) = None"
  shows "(store w (GetMachineName env) = None \<longrightarrow>
            GetHostStatus env w
              = (Inr (State_String env State_None), emit (EvExists (GetMachineName env)) w))
       \<and> (store w (GetMachineName env) = Some host
            \<and> Load_fault env (GetMachineName env) (trace w @ [EvExists (GetMachineName env)]) = None
            \<and> GetState_res env (Driver host)
                 (trace w @ [EvExists (GetMachineName env), EvLoad (GetMachineName env)]) = Inr s \<longrightarrow>
            fst (GetHostStatus env w) = Inr (State_String env s)
            \<and> trace (snd (GetHostStatus env w))
                = trace w @ [EvExists (GetMachineName env), EvLoad (GetMachineName env),
                             EvGetState (Driver host)]
            \<and> store (snd (GetHostStatus env w)) = store w)"
  using assms
  by (simp add: GetHostStatus_def api_Exists_def api_Load_def Driver_GetState_def emit_def)

theorem GetHostStatus_absent_or_state_witness:
  "fst (GetHostStatus demo_env demo_fresh) = Inr []
   \<and> trace (snd (GetHostStatus demo_env demo_fresh)) = [EvExists ''minikube'']
   \<and> fst (GetHostStatus demo_env demo_existing) = Inr ''Running''
   \<and> trace (snd (GetHostStatus demo_env demo_existing))
       = [EvCreate demo_host, EvSave demo_host, EvExists ''minikube'', EvLoad ''minikube'',
          EvGetState (Driver demo_host)]"
  using GetHostStatus_absent_or_state [of demo_env demo_fresh demo_host State_None]
        GetHostStatus_absent_or_state [of demo_env demo_existing demo_host State_Running]
  by (simp add: demo emit_def)

subsection \<open>Deleting\<close>

lemma tryPowerOff_trace:
  "trace (tryPowerOff env h w) =
     trace w @ (if Driver_DriverName (Driver h) = ''none'' then []
                else (case GetState_res env (Driver h) (trace w) of
                        Inl err \<Rightarrow> [EvGetState (Driver h)]
                      | Inr s \<Rightarrow> if s = State_Running
                                 then [EvGetState (Driver h), EvRunSSHCommand h ''sudo poweroff'']
                                 else [EvGetState (Driver h)]))"
  by (simp add: tryPowerOff_def Driver_GetState_def Host_RunSSHCommand_def emit_def console_out_def
      Let_def split: sum.split)

lemma tryPowerOff_store: "store (tryPowerOff env h w) = store w"
  by (simp add: tryPowerOff_def Driver_GetState_def Host_RunSSHCommand_def emit_def console_out_def
      Let_def split: sum.split)

text \<open>
  C2. When the record loads, \<open>DeleteHost\<close> first tries the power-off: nothing for the driver
  \<^verbatim>\<open>none\<close>, the state query alone when the query fails or the state is not Running, and the
  state query followed by \<^verbatim>\<open>sudo poweroff\<close> otherwise; the result of that command is not part
  of what \<open>DeleteHost\<close> returns. Then comes the driver's remove. If it fails, \<open>DeleteHost\<close>
  returns that error wrapped, the store's remove is not called and the store is as it was.
  Only after a successful driver remove is the store's remove called.
\<close>

theorem DeleteHost_order:
  assumes "Load_fault env (GetMachineName env) (trace w) = None"
    and "store w (GetMachineName env) = Some host"
  shows
    "(let name = GetMachineName env;
          d = Driver host;
          w1 = emit (EvLoad name) w;
          w2 = tryPowerOff env host w1
      in trace w2 =
           trace w @ [EvLoad name]
           @ (if Driver_DriverName d = ''none'' then []
              else (case GetState_res env d (trace w1) of
                      Inl err \<Rightarrow> [EvGetState d]
                    | Inr s \<Rightarrow> if s = State_Running
                               then [EvGetState d, EvRunSSHCommand host ''sudo poweroff'']
                               else [EvGetState d]))
         \<and> store w2 = store w
         \<and> (case DriverRemove_res env d (trace w2) of
               Some err \<Rightarrow>
                 fst (DeleteHost env w) = Some (Wrap err ''host remove'')
                 \<and> trace (snd (DeleteHost env w)) = trace w2 @ [EvDriverRemove d]
                 \<and> store (snd (DeleteHost env w)) = store w
             | None \<Rightarrow>
                 trace (snd (DeleteHost env w)) = trace w2 @ [EvDriverRemove d, EvRemove name]
                 \<and> (case Remove_fault env name (trace w2 @ [EvDriverRemove d]) of
                       Some err \<Rightarrow>
                         fst (DeleteHost env w) = Some (Wrap err ''api remove'')
                         \<and> store (snd (DeleteHost env w)) = store w
                     | None \<Rightarrow>
                         fst (DeleteHost env w) = None
                         \<and> store (snd (DeleteHost env w)) = (store w)(name := None))))"
proof -
  have load: "api_Load env (GetMachineName env) w = (Inr host, emit (EvLoad (GetMachineName env)) w)"
    using assms by (simp add: api_Load_def)
  have tr1: "trace (emit (EvLoad (GetMachineName env)) w) = trace w @ [EvLoad (GetMachineName env)]"
    by (simp add: emit_def)
  have st1: "store (emit (EvLoad (GetMachineName env)) w) = store w"
    by (simp add: emit_def)
  show ?thesis
    unfolding Let_def
    apply (intro conjI)
      apply (simp only: tryPowerOff_trace tr1 append_assoc)
     apply (simp only: tryPowerOff_store st1)
    apply (simp add: DeleteHost_def load Driver_Remove_def api_Remove_def emit_def console_out_def
        tryPowerOff_store Let_def split: option.split)
    done
qed

theorem DeleteHost_order_witness:
  "fst (DeleteHost demo_env demo_existing) = None
   \<and> trace (snd (DeleteHost demo_env demo_existing))
       = [EvCreate demo_host, EvSave demo_host, EvLoad ''minikube'', EvGetState (Driver demo_host),
          EvRunSSHCommand demo_host ''sudo poweroff'', EvDriverRemove (Driver demo_host),
          EvRemove ''minikube'']
   \<and> store (snd (DeleteHost demo_env demo_existing)) ''minikube'' = None
   \<and> fst (DeleteHost (demo_env\<lparr>DriverRemove_res := demo_DriverRemove_busy\<rparr>) demo_existing)
       = Some (Wrap (External ''machine is locked'') ''host remove'')
   \<and> trace (snd (DeleteHost (demo_env\<lparr>DriverRemove_res := demo_DriverRemove_busy\<rparr>) demo_existing))
       = [EvCreate demo_host, EvSave demo_host, EvLoad ''minikube'', EvGetState (Driver demo_host),
          EvRunSSHCommand demo_host ''sudo poweroff'', EvDriverRemove (Driver demo_host)]
   \<and> store (snd (DeleteHost (demo_env\<lparr>DriverRemove_res := demo_DriverRemove_busy\<rparr>) demo_existing))
        ''minikube'' = Some demo_host"
  using DeleteHost_order [of demo_env demo_existing demo_host]
        DeleteHost_order [of "demo_env\<lparr>DriverRemove_res := demo_DriverRemove_busy\<rparr>" demo_existing
          demo_host]
  by (simp add: demo emit_def tryPowerOff_trace demo_DriverRemove_busy_def Let_def)

subsection \<open>The parts of \<open>StartHost\<close> on an existing record\<close>

text \<open>Restart: no create, the record stays, and nothing is done for a running machine.\<close>

lemma restart_frame:
  assumes "StartHost_restart env h s w = (r, w')"
  shows "filter is_create (trace w') = filter is_create (trace w)"
    and "store w n = Some h \<Longrightarrow> store w' n = Some h"
    and "set (console w) \<subseteq> set (console w')"
  using assms
  by (auto simp: StartHost_restart_def calls Let_def split: option.splits if_splits)

lemma restart_running:
  assumes "StartHost_restart env h State_Running w = (r, w')"
  shows "r = None \<and> trace w' = trace w \<and> store w' = store w"
  using assms by (auto simp: StartHost_restart_def console_out_def)

lemma restart_indep:
  assumes "store w = store v" and "trace w = trace v"
  shows "fst (StartHost_restart env h s w) = fst (StartHost_restart env h s v)
       \<and> store (snd (StartHost_restart env h s w)) = store (snd (StartHost_restart env h s v))
       \<and> trace (snd (StartHost_restart env h s w)) = trace (snd (StartHost_restart env h s v))"
  using assms by (simp add: StartHost_restart_def calls Let_def split: option.split)

text \<open>Provisioning: the store is not touched; the host returned has the new environment.\<close>

lemma provision_frame:
  assumes "StartHost_provision env c h w = (r, w')"
  shows "filter is_create (trace w') = filter is_create (trace w)"
    and "filter is_restart (trace w') = filter is_restart (trace w)"
    and "store w' = store w"
    and "set (console w) \<subseteq> set (console w')"
  using assms
  by (auto simp: StartHost_provision_def calls Let_def split: option.splits sum.splits if_splits)

lemma provision_result:
  assumes "StartHost_provision env c h w = (Inr h', w')"
  shows "h' = (if DockerEnv c = [] then h else with_Env h (DockerEnv c))"
    and "DockerEnv c \<noteq> [] \<Longrightarrow>
           \<exists>p. EvProvision p (SwarmOptions (HostOptions h)) (AuthOptions (HostOptions h))
                  (EngineOptions (HostOptions h')) \<in> set (trace w')"
  using assms
  by (auto simp: StartHost_provision_def engineOptions_def with_Env_def calls Let_def
      split: option.splits sum.splits if_splits)

lemma provision_indep:
  assumes "store w = store v" and "trace w = trace v" and "DockerEnv c = DockerEnv c'"
  shows "fst (StartHost_provision env c h w) = fst (StartHost_provision env c' h v)
       \<and> store (snd (StartHost_provision env c h w)) = store (snd (StartHost_provision env c' h v))
       \<and> trace (snd (StartHost_provision env c h w)) = trace (snd (StartHost_provision env c' h v))"
  using assms
  by (simp add: StartHost_provision_def engineOptions_def calls Let_def split: option.split sum.split)

text \<open>Authentication: the store is not touched and the host is returned as it is.\<close>

lemma auth_frame:
  assumes "StartHost_auth env h w = (r, w')"
  shows "filter is_create (trace w') = filter is_create (trace w)"
    and "filter is_restart (trace w') = filter is_restart (trace w)"
    and "store w' = store w"
    and "set (console w) \<subseteq> set (console w')"
    and "r = Inr h' \<Longrightarrow> h' = h"
  using assms
  by (auto simp: StartHost_auth_def calls Let_def split: option.splits sum.splits if_splits)

lemma auth_indep:
  assumes "store w = store v" and "trace w = trace v"
  shows "fst (StartHost_auth env h w) = fst (StartHost_auth env h v)
       \<and> store (snd (StartHost_auth env h w)) = store (snd (StartHost_auth env h v))
       \<and> trace (snd (StartHost_auth env h w)) = trace (snd (StartHost_auth env h v))"
  using assms by (simp add: StartHost_auth_def calls Let_def split: option.split)

text \<open>The three parts in sequence, after the query of the state.\<close>

lemma existing_cases:
  assumes "StartHost_existing env c h w = (r, w')"
  obtains
    (state_failed) err where
      "GetState_res env (Driver h) (trace w) = Inl err"
      "w' = emit (EvGetState (Driver h)) w"
      "r = Inl (Wrap err ''Error getting state for host'')"
  | (restart_failed) s err where
      "GetState_res env (Driver h) (trace w) = Inr s"
      "StartHost_restart env h s (emit (EvGetState (Driver h)) w) = (Some err, w')"
      "r = Inl err"
  | (provision_failed) s w2 err where
      "GetState_res env (Driver h) (trace w) = Inr s"
      "StartHost_restart env h s (emit (EvGetState (Driver h)) w) = (None, w2)"
      "StartHost_provision env c h w2 = (Inl err, w')"
      "r = Inl err"
  | (provisioned) s w2 h2 w3 where
      "GetState_res env (Driver h) (trace w) = Inr s"
      "StartHost_restart env h s (emit (EvGetState (Driver h)) w) = (None, w2)"
      "StartHost_provision env c h w2 = (Inr h2, w3)"
      "StartHost_auth env h2 w3 = (r, w')"
  using assms unfolding StartHost_existing_def Driver_GetState_def
  by (auto split: sum.splits option.splits prod.splits)

lemma emit_simps [simp]:
  "trace (emit e w) = trace w @ [e]" "store (emit e w) = store w" "console (emit e w) = console w"
  by (simp_all add: emit_def)

lemma existing_no_create:
  assumes "StartHost_existing env c h w = (r, w')"
  shows "filter is_create (trace w') = filter is_create (trace w)"
  using assms
proof (cases rule: existing_cases)
  case (state_failed err)
  then show ?thesis by simp
next
  case (restart_failed s err)
  then show ?thesis using restart_frame(1) by fastforce
next
  case (provision_failed s w2 err)
  then show ?thesis using restart_frame(1) provision_frame(1) by fastforce
next
  case (provisioned s w2 h2 w3)
  then show ?thesis using restart_frame(1) provision_frame(1) auth_frame(1) by fastforce
qed

lemma existing_store:
  assumes "StartHost_existing env c h w = (r, w')" and "store w n = Some h"
  shows "store w' n = Some h"
  using assms(1)
proof (cases rule: existing_cases)
  case (state_failed err)
  then show ?thesis using assms(2) by simp
next
  case (restart_failed s err)
  show ?thesis using assms(2) restart_frame(2) [OF restart_failed(2), of n] by simp
next
  case (provision_failed s w2 err)
  show ?thesis
    using assms(2) restart_frame(2) [OF provision_failed(2), of n]
      provision_frame(3) [OF provision_failed(3)]
    by simp
next
  case (provisioned s w2 h2 w3)
  show ?thesis
    using assms(2) restart_frame(2) [OF provisioned(2), of n] provision_frame(3) [OF provisioned(3)]
      auth_frame(3) [OF provisioned(4)]
    by simp
qed

lemma existing_console:
  assumes "StartHost_existing env c h w = (r, w')"
  shows "set (console w) \<subseteq> set (console w')"
  using assms
proof (cases rule: existing_cases)
  case (state_failed err)
  then show ?thesis by simp
next
  case (restart_failed s err)
  show ?thesis using restart_frame(3) [OF restart_failed(2)] by simp
next
  case (provision_failed s w2 err)
  show ?thesis
    using restart_frame(3) [OF provision_failed(2)] provision_frame(4) [OF provision_failed(3)]
    by auto
next
  case (provisioned s w2 h2 w3)
  show ?thesis
    using restart_frame(3) [OF provisioned(2)] provision_frame(4) [OF provisioned(3)]
      auth_frame(4) [OF provisioned(4)]
    by auto
qed

lemma existing_result:
  assumes "StartHost_existing env c h w = (Inr h', w')"
  shows "h' = (if DockerEnv c = [] then h else with_Env h (DockerEnv c))"
    and "DockerEnv c \<noteq> [] \<Longrightarrow>
           \<exists>p. EvProvision p (SwarmOptions (HostOptions h)) (AuthOptions (HostOptions h))
                  (EngineOptions (HostOptions h')) \<in> set (trace w')"
proof -
  from assms obtain w2 h2 w3 where
    p: "StartHost_provision env c h w2 = (Inr h2, w3)" and a: "StartHost_auth env h2 w3 = (Inr h', w')"
    by (cases rule: existing_cases) auto
  from a have eq: "h' = h2" by (rule auth_frame(5) [OF _ refl, symmetric, THEN sym])
  with p show "h' = (if DockerEnv c = [] then h else with_Env h (DockerEnv c))"
    using provision_result(1) by blast
  have sub: "set (trace w3) \<subseteq> set (trace w')"
    using a by (auto simp: StartHost_auth_def calls split: if_splits option.splits)
  show "\<exists>p. EvProvision p (SwarmOptions (HostOptions h)) (AuthOptions (HostOptions h))
                  (EngineOptions (HostOptions h')) \<in> set (trace w')" if "DockerEnv c \<noteq> []"
    using provision_result(2) [OF p that] sub eq by blast
qed

lemma existing_running:
  assumes "StartHost_existing env c h w = (r, w')"
    and "GetState_res env (Driver h) (trace w) = Inr State_Running"
  shows "store w' = store w \<and> filter is_restart (trace w') = filter is_restart (trace w)"
  using assms(1)
proof (cases rule: existing_cases)
  case (state_failed err)
  then show ?thesis using assms(2) by simp
next
  case (restart_failed s err)
  then have "StartHost_restart env h State_Running (emit (EvGetState (Driver h)) w) = (Some err, w')"
    using assms(2) by simp
  from restart_running [OF this] show ?thesis by simp
next
  case (provision_failed s w2 err)
  then have "StartHost_restart env h State_Running (emit (EvGetState (Driver h)) w) = (None, w2)"
    using assms(2) by simp
  from restart_running [OF this] provision_frame(2,3) [OF provision_failed(3)]
  show ?thesis by simp
next
  case (provisioned s w2 h2 w3)
  then have "StartHost_restart env h State_Running (emit (EvGetState (Driver h)) w) = (None, w2)"
    using assms(2) by simp
  from restart_running [OF this] provision_frame(2,3) [OF provisioned(3)]
    auth_frame(2,3) [OF provisioned(4)]
  show ?thesis by simp
qed

lemma existing_indep:
  assumes "store w = store v" and "trace w = trace v" and "DockerEnv c = DockerEnv c'"
  shows "fst (StartHost_existing env c h w) = fst (StartHost_existing env c' h v)
       \<and> store (snd (StartHost_existing env c h w)) = store (snd (StartHost_existing env c' h v))
       \<and> trace (snd (StartHost_existing env c h w)) = trace (snd (StartHost_existing env c' h v))"
proof (cases "GetState_res env (Driver h) (trace v)")
  case (Inl err)
  then show ?thesis using assms by (simp add: StartHost_existing_def Driver_GetState_def)
next
  case (Inr s)
  let ?w1 = "emit (EvGetState (Driver h)) w" and ?v1 = "emit (EvGetState (Driver h)) v"
  have r: "fst (StartHost_restart env h s ?w1) = fst (StartHost_restart env h s ?v1)
       \<and> store (snd (StartHost_restart env h s ?w1)) = store (snd (StartHost_restart env h s ?v1))
       \<and> trace (snd (StartHost_restart env h s ?w1)) = trace (snd (StartHost_restart env h s ?v1))"
    using assms by (intro restart_indep) simp_all
  obtain rw w2 where w2: "StartHost_restart env h s ?w1 = (rw, w2)" by force
  obtain rv v2 where v2: "StartHost_restart env h s ?v1 = (rv, v2)" by force
  from r w2 v2 have r2: "rw = rv" "store w2 = store v2" "trace w2 = trace v2" by simp_all
  show ?thesis
  proof (cases rv)
    case (Some err)
    then show ?thesis
      using Inr assms w2 v2 r2 by (simp add: StartHost_existing_def Driver_GetState_def)
  next
    case None
    have p: "fst (StartHost_provision env c h w2) = fst (StartHost_provision env c' h v2)
       \<and> store (snd (StartHost_provision env c h w2)) = store (snd (StartHost_provision env c' h v2))
       \<and> trace (snd (StartHost_provision env c h w2)) = trace (snd (StartHost_provision env c' h v2))"
      using r2 assms(3) by (intro provision_indep)
    obtain pw w3 where w3: "StartHost_provision env c h w2 = (pw, w3)" by force
    obtain pv v3 where v3: "StartHost_provision env c' h v2 = (pv, v3)" by force
    from p w3 v3 have p2: "pw = pv" "store w3 = store v3" "trace w3 = trace v3" by simp_all
    show ?thesis
    proof (cases pv)
      case (Inl err)
      then show ?thesis
        using Inr None assms w2 v2 r2 w3 v3 p2
        by (simp add: StartHost_existing_def Driver_GetState_def)
    next
      case (Inr h2)
      have "fst (StartHost_auth env h2 w3) = fst (StartHost_auth env h2 v3)
       \<and> store (snd (StartHost_auth env h2 w3)) = store (snd (StartHost_auth env h2 v3))
       \<and> trace (snd (StartHost_auth env h2 w3)) = trace (snd (StartHost_auth env h2 v3))"
        using p2 by (intro auth_indep)
      then show ?thesis
        using Inr \<open>GetState_res env (Driver h) (trace v) = Inr s\<close> None assms w2 v2 r2 w3 v3 p2
        by (simp add: StartHost_existing_def Driver_GetState_def)
    qed
  qed
qed


subsection \<open>\<open>StartHost\<close> as a whole\<close>

lemma notice_simps [simp]:
  "trace (StartHost_notice env c h b w) = trace w"
  "store (StartHost_notice env c h b w) = store w"
  by (simp_all add: StartHost_notice_def console_out_def)

lemma notice_warning:
  "Driver_DriverName (Driver h) \<noteq> VMDriver c \<Longrightarrow>
     Warning ''Ignoring --vm-driver=%s, as the existing %q VM was created using the %s driver.''
       [VMDriver c, GetMachineName env, Driver_DriverName (Driver h)]
       \<in> set (console (StartHost_notice env c h b w))"
  by (simp add: StartHost_notice_def console_out_def)

lemma StartHost_cases:
  assumes "StartHost env c w = (r, w')" and "store w (GetMachineName env) = Some h"
  obtains
    (exists_failed) err where
      "Exists_fault env (GetMachineName env) (trace w) = Some err"
      "w' = emit (EvExists (GetMachineName env)) w"
      "r = Inl (Wrap err (''machine name: '' @ GetMachineName env))"
  | (load_failed) err where
      "Exists_fault env (GetMachineName env) (trace w) = None"
      "Load_fault env (GetMachineName env) (trace w @ [EvExists (GetMachineName env)]) = Some err"
      "w' = emit (EvLoad (GetMachineName env)) (emit (EvExists (GetMachineName env)) w)"
      "r = Inl (Wrap err (''Error loading existing host. Please try running ''
                  @ ''[minikube delete], then run [minikube start] again.''))"
  | (loaded)
      "Exists_fault env (GetMachineName env) (trace w) = None"
      "Load_fault env (GetMachineName env) (trace w @ [EvExists (GetMachineName env)]) = None"
      "StartHost_existing env c h
         (StartHost_notice env c h True
            (emit (EvLoad (GetMachineName env)) (emit (EvExists (GetMachineName env)) w)))
       = (r, w')"
  using assms unfolding StartHost_def api_Exists_def api_Load_def
  by (auto split: option.splits)

lemma createHost_success:
  assumes "createHost env c w = (Inr h, w')"
  shows "filter is_create (trace w') = filter is_create (trace w) @ [EvCreate h]"
    and "store w' = (store w)(Name h \<mapsto> h)"
  using assms
  by (auto simp: createHost_def preCreateHost_def calls Let_def
      split: option.splits sum.splits prod.splits if_splits)

lemma StartHost_fresh:
  assumes "StartHost env c w = (Inr h, w')" and "store w (GetMachineName env) = None"
  shows "createHost env c (emit (EvExists (GetMachineName env)) w) = (Inr h, w')"
  using assms unfolding StartHost_def api_Exists_def
  by (auto split: option.splits)

lemma StartHost_keeps:
  assumes "store w (GetMachineName env) = Some h"
  shows "filter is_create (trace (snd (StartHost env c w))) = filter is_create (trace w)
       \<and> store (snd (StartHost env c w)) (GetMachineName env) = Some h"
proof -
  obtain r w' where run: "StartHost env c w = (r, w')" by force
  from run assms have "filter is_create (trace w') = filter is_create (trace w)
       \<and> store w' (GetMachineName env) = Some h"
  proof (cases rule: StartHost_cases)
    case (exists_failed err)
    then show ?thesis using assms by simp
  next
    case (load_failed err)
    then show ?thesis using assms by simp
  next
    case loaded
    show ?thesis
      using existing_no_create [OF loaded(3)] existing_store [OF loaded(3), of "GetMachineName env"]
        assms
      by simp
  qed
  with run show ?thesis by simp
qed

lemma StartHosts_keep:
  assumes "store w (GetMachineName env) = Some h"
  shows "filter is_create (trace (StartHosts env configs w)) = filter is_create (trace w)"
  using assms
proof (induction configs arbitrary: w)
  case Nil
  then show ?case by simp
next
  case (Cons c configs)
  from StartHost_keeps [OF Cons.prems, of c]
  have "filter is_create (trace (snd (StartHost env c w))) = filter is_create (trace w)"
    and "store (snd (StartHost env c w)) (GetMachineName env) = Some h"
    by simp_all
  with Cons.IH [of "snd (StartHost env c w)"] show ?case by simp
qed

lemma StartHost_running:
  assumes "StartHost env c w = (r, w')" and "store w (GetMachineName env) = Some h"
    and "GetState_res env (Driver h)
           (trace w @ [EvExists (GetMachineName env), EvLoad (GetMachineName env)])
         = Inr State_Running"
  shows "store w' = store w \<and> filter is_restart (trace w') = filter is_restart (trace w)"
  using assms(1,2)
proof (cases rule: StartHost_cases)
  case (exists_failed err)
  then show ?thesis by simp
next
  case (load_failed err)
  then show ?thesis by simp
next
  case loaded
  show ?thesis using existing_running [OF loaded(3)] assms(3) by simp
qed

lemma StartHost_result:
  assumes "StartHost env c w = (Inr h', w')" and "store w (GetMachineName env) = Some h"
  shows "h' = (if DockerEnv c = [] then h else with_Env h (DockerEnv c))"
    and "DockerEnv c \<noteq> [] \<Longrightarrow>
           \<exists>p. EvProvision p (SwarmOptions (HostOptions h)) (AuthOptions (HostOptions h))
                  (EngineOptions (HostOptions h')) \<in> set (trace w')"
proof -
  from assms have run: "StartHost_existing env c h
         (StartHost_notice env c h True
            (emit (EvLoad (GetMachineName env)) (emit (EvExists (GetMachineName env)) w)))
       = (Inr h', w')"
    by (cases rule: StartHost_cases) simp_all
  show "h' = (if DockerEnv c = [] then h else with_Env h (DockerEnv c))"
    by (rule existing_result(1) [OF run])
  show "\<exists>p. EvProvision p (SwarmOptions (HostOptions h)) (AuthOptions (HostOptions h))
                  (EngineOptions (HostOptions h')) \<in> set (trace w')" if "DockerEnv c \<noteq> []"
    by (rule existing_result(2) [OF run that])
qed

subsection \<open>Starting twice\<close>

lemma createHost_runs:
  assumes "registry_Driver env (VMDriver config) = Inr def"
    and "\<And>tr. CacheMinikubeISOFromURL_res env (MinikubeISO config) tr = None"
    and "json_Marshal env (ConfigCreator def config) = Inr data"
    and "\<And>tr. NewHost_res env (VMDriver config) data tr = Inr h0"
    and "\<And>tr. Create_fault env (created_host env config h0) tr = None"
    and "\<And>tr. Save_fault env (created_host env config h0) tr = None"
  shows "fst (createHost env config w) = Inr (created_host env config h0)"
proof -
  have "fst (preCreateHost env config w) = None"
    by (simp add: preCreateHost_def)
  then obtain w1 where pre: "preCreateHost env config w = (None, w1)"
    by (cases "preCreateHost env config w") simp
  show ?thesis
  proof (cases "VMDriver config = ''none''")
    case True
    with assms show ?thesis
      by (simp add: createHost_def pre created_host_def calls Let_def)
  next
    case False
    with assms show ?thesis
      by (simp add: createHost_def pre created_host_def calls Let_def)
  qed
qed

lemma StartHost_creates:
  assumes "store w (GetMachineName env) = None"
    and "\<And>tr. Exists_fault env (GetMachineName env) tr = None"
    and "registry_Driver env (VMDriver config) = Inr def"
    and "\<And>tr. CacheMinikubeISOFromURL_res env (MinikubeISO config) tr = None"
    and "json_Marshal env (ConfigCreator def config) = Inr data"
    and "\<And>tr. NewHost_res env (VMDriver config) data tr = Inr h0"
    and "\<And>tr. Create_fault env (created_host env config h0) tr = None"
    and "\<And>tr. Save_fault env (created_host env config h0) tr = None"
  shows "fst (StartHost env config w) = Inr (created_host env config h0)"
  using assms(1,2) createHost_runs [OF assms(3-8)]
  by (simp add: StartHost_def api_Exists_def)

lemma StartHost_reuses:
  assumes "store w (GetMachineName env) = Some h"
    and "\<And>tr. Exists_fault env (GetMachineName env) tr = None"
    and "\<And>tr. Load_fault env (GetMachineName env) tr = None"
    and "GetState_res env (Driver h)
           (trace w @ [EvExists (GetMachineName env), EvLoad (GetMachineName env)])
         = Inr State_Running"
    and "Env (EngineOptions (HostOptions h)) = DockerEnv config"
    and "\<And>tr. DetectProvisioner_res env (Driver h) tr = Inr p"
    and "\<And>tr. Provision_res env p (SwarmOptions (HostOptions h)) (AuthOptions (HostOptions h))
                 (EngineOptions (HostOptions h)) tr = None"
    and "\<And>tr. ConfigureAuth_res env h tr = None"
  shows "fst (StartHost env config w) = Inr h"
proof -
  have same: "h\<lparr>HostOptions := (HostOptions h)
                 \<lparr>EngineOptions := (EngineOptions (HostOptions h))\<lparr>Env := DockerEnv config\<rparr>\<rparr>\<rparr> = h"
    using assms(5) by simp
  show ?thesis
    using assms(1-4,6-8)
    by (simp add: StartHost_def StartHost_existing_def StartHost_restart_def
        StartHost_provision_def StartHost_auth_def engineOptions_def calls Let_def same)
qed

text \<open>
  C1. Take a machine name without a record, a configuration whose driver is registered, and
  collaborators that do not fail: the store, the download of the image, the making of the host
  (named after the machine), the provisioner and the authentication. Let \<open>h\<close> be the host that
  \<open>createHost\<close> makes and \<open>w1\<close> the world after the first \<open>StartHost\<close>. The first call returns
  \<open>h\<close>, invokes the store's create exactly once, for \<open>h\<close>, and \<open>h\<close> is the persisted record
  of the name. When the driver reports Running at the second call, that call returns \<open>h\<close> again:
  it neither creates, starts nor saves, and the store is as the first call left it. No later
  \<open>StartHost\<close>, whatever its configuration and however many follow, invokes the store's create
  again, and each one that finds the driver Running reuses the machine as it is.
\<close>

theorem StartHost_idempotent:
  assumes fresh: "store w (GetMachineName env) = None"
    and exists_ok: "\<And>tr. Exists_fault env (GetMachineName env) tr = None"
    and load_ok: "\<And>tr. Load_fault env (GetMachineName env) tr = None"
    and registered: "registry_Driver env (VMDriver config) = Inr def"
    and cached: "\<And>tr. CacheMinikubeISOFromURL_res env (MinikubeISO config) tr = None"
    and marshalled: "json_Marshal env (ConfigCreator def config) = Inr data"
    and made: "\<And>tr. NewHost_res env (VMDriver config) data tr = Inr h0"
    and named: "Name h0 = GetMachineName env"
    and h: "h = created_host env config h0"
    and created: "\<And>tr. Create_fault env h tr = None"
    and saved: "\<And>tr. Save_fault env h tr = None"
    and w1: "w1 = snd (StartHost env config w)"
    and running: "GetState_res env (Driver h)
                    (trace w1 @ [EvExists (GetMachineName env), EvLoad (GetMachineName env)])
                  = Inr State_Running"
    and detected: "\<And>tr. DetectProvisioner_res env (Driver h) tr = Inr p"
    and provisioned:
      "\<And>tr. Provision_res env p (SwarmOptions (HostOptions h)) (AuthOptions (HostOptions h))
              (EngineOptions (HostOptions h)) tr = None"
    and authed: "\<And>tr. ConfigureAuth_res env h tr = None"
  shows "fst (StartHost env config w) = Inr h
       \<and> filter is_create (trace w1) = filter is_create (trace w) @ [EvCreate h]
       \<and> store w1 (GetMachineName env) = Some h
       \<and> fst (StartHost env config w1) = Inr h
       \<and> store (snd (StartHost env config w1)) = store w1
       \<and> filter is_create (trace (snd (StartHost env config w1))) = filter is_create (trace w1)
       \<and> filter is_restart (trace (snd (StartHost env config w1))) = filter is_restart (trace w1)
       \<and> (\<forall>configs. filter is_create (trace (StartHosts env configs w1))
                        = filter is_create (trace w1))
       \<and> (\<forall>config2 r2 w2.
             StartHost env config2 w1 = (r2, w2) \<longrightarrow>
             store w2 = store w1
             \<and> filter is_restart (trace w2) = filter is_restart (trace w1)
             \<and> filter is_create (trace w2) = filter is_create (trace w1)
             \<and> (\<forall>h2. r2 = Inr h2 \<longrightarrow>
                   h2 = (if DockerEnv config2 = [] then h else with_Env h (DockerEnv config2))))"
proof -
  have first: "fst (StartHost env config w) = Inr h"
    unfolding h
    using fresh exists_ok registered cached marshalled made created [unfolded h] saved [unfolded h]
    by (rule StartHost_creates)
  then have run: "StartHost env config w = (Inr h, w1)"
    by (simp add: w1 prod_eq_iff)
  have "createHost env config (emit (EvExists (GetMachineName env)) w) = (Inr h, w1)"
    using run fresh by (rule StartHost_fresh)
  from createHost_success [OF this]
  have c: "filter is_create (trace w1) = filter is_create (trace w) @ [EvCreate h]"
    and s: "store w1 (GetMachineName env) = Some h"
    using named by (simp_all add: h created_host_def)
  have e: "Env (EngineOptions (HostOptions h)) = DockerEnv config"
    by (simp add: h created_host_def engineOptions_def)
  have second: "fst (StartHost env config w1) = Inr h"
    using s exists_ok load_ok running e detected provisioned authed by (rule StartHost_reuses)
  have again: "store w2 = store w1
             \<and> filter is_restart (trace w2) = filter is_restart (trace w1)
             \<and> filter is_create (trace w2) = filter is_create (trace w1)
             \<and> (\<forall>h2. r2 = Inr h2 \<longrightarrow>
                   h2 = (if DockerEnv config2 = [] then h else with_Env h (DockerEnv config2)))"
    if again_run: "StartHost env config2 w1 = (r2, w2)" for config2 r2 w2
    using StartHost_running [OF again_run s running] StartHost_keeps [OF s, of config2] again_run
      StartHost_result(1) [OF _ s, of config2 _ w2]
    by auto
  have twice: "store (snd (StartHost env config w1)) = store w1
       \<and> filter is_create (trace (snd (StartHost env config w1))) = filter is_create (trace w1)
       \<and> filter is_restart (trace (snd (StartHost env config w1))) = filter is_restart (trace w1)"
    using again [of config "fst (StartHost env config w1)" "snd (StartHost env config w1)"]
    by simp
  have many: "filter is_create (trace (StartHosts env configs w1)) = filter is_create (trace w1)"
    for configs
    using s by (rule StartHosts_keep)
  from first c s second twice many again show ?thesis by blast
qed

lemma demo_first_start:
  "fst (StartHost demo_env demo_config demo_fresh) = Inr demo_host"
  "trace (snd (StartHost demo_env demo_config demo_fresh))
     = [EvExists ''minikube'',
        EvCacheMinikubeISOFromURL ''https://storage.googleapis.com/minikube/iso/minikube.iso'',
        EvNewHost ''virtualbox'' ''{}'', EvCreate demo_host, EvSave demo_host]"
  "store (snd (StartHost demo_env demo_config demo_fresh)) = [''minikube'' \<mapsto> demo_host]"
  by (simp_all add: StartHost_defs calls demo Let_def)

theorem StartHost_idempotent_witness:
  "store demo_fresh ''minikube'' = None
   \<and> fst (StartHost demo_env demo_config demo_fresh) = Inr demo_host
   \<and> filter is_create (trace (snd (StartHost demo_env demo_config demo_fresh)))
       = [EvCreate demo_host]
   \<and> store (snd (StartHost demo_env demo_config demo_fresh)) ''minikube'' = Some demo_host
   \<and> fst (StartHost demo_env demo_config (snd (StartHost demo_env demo_config demo_fresh)))
       = Inr demo_host
   \<and> filter is_create
        (trace (snd (StartHost demo_env demo_config
                       (snd (StartHost demo_env demo_config demo_fresh)))))
       = [EvCreate demo_host]
   \<and> filter is_restart
        (trace (snd (StartHost demo_env demo_config
                       (snd (StartHost demo_env demo_config demo_fresh)))))
       = [EvSave demo_host]"
proof -
  let ?w1 = "snd (StartHost demo_env demo_config demo_fresh)"
  let ?h0 = "\<lparr>Name = ''minikube'', DriverName = ''virtualbox'',
              Driver = MkDriver ''virtualbox'' ''{}'', RawDriver = ''{}'',
              HostOptions = demo_options\<rparr>"
  have nm: "GetMachineName demo_env = ''minikube''" by (simp add: demo)
  have fresh: "store demo_fresh (GetMachineName demo_env) = None"
    by (simp add: demo)
  have exists_ok: "Exists_fault demo_env (GetMachineName demo_env) tr = None" for tr
    by (simp add: demo)
  have load_ok: "Load_fault demo_env (GetMachineName demo_env) tr = None" for tr
    by (simp add: demo)
  have registered: "registry_Driver demo_env (VMDriver demo_config)
                      = Inr \<lparr>ConfigCreator = (\<lambda>config. ''{}'')\<rparr>"
    by (simp add: demo)
  have cached: "CacheMinikubeISOFromURL_res demo_env (MinikubeISO demo_config) tr = None" for tr
    by (simp add: demo)
  have marshalled: "json_Marshal demo_env (ConfigCreator \<lparr>ConfigCreator = (\<lambda>config. ''{}'')\<rparr> demo_config)
                      = Inr ''{}''"
    by (simp add: demo)
  have made: "NewHost_res demo_env (VMDriver demo_config) ''{}'' tr = Inr ?h0" for tr
    by (simp add: demo)
  have named: "Name ?h0 = GetMachineName demo_env"
    by (simp add: demo)
  have h: "demo_host = created_host demo_env demo_config ?h0"
    by (simp add: demo created_host_def engineOptions_def)
  have created: "Create_fault demo_env demo_host tr = None" for tr
    by (simp add: demo_env_def)
  have saved: "Save_fault demo_env demo_host tr = None" for tr
    by (simp add: demo_env_def)
  have running: "GetState_res demo_env (Driver demo_host)
      (trace ?w1 @ [EvExists (GetMachineName demo_env), EvLoad (GetMachineName demo_env)])
      = Inr State_Running"
    by (simp add: demo_first_start(2)) (simp add: demo)
  have detected: "DetectProvisioner_res demo_env (Driver demo_host) tr = Inr ''buildroot''" for tr
    by (simp add: demo_env_def)
  have provisioned: "Provision_res demo_env ''buildroot'' (SwarmOptions (HostOptions demo_host))
      (AuthOptions (HostOptions demo_host)) (EngineOptions (HostOptions demo_host)) tr = None" for tr
    by (simp add: demo_env_def)
  have authed: "ConfigureAuth_res demo_env demo_host tr = None" for tr
    by (simp add: demo_env_def)
  note idem = StartHost_idempotent [OF fresh exists_ok load_ok registered cached marshalled made
      named h created saved refl running detected provisioned authed]
  from idem have
    "fst (StartHost demo_env demo_config demo_fresh) = Inr demo_host"
    "filter is_create (trace ?w1) = filter is_create (trace demo_fresh) @ [EvCreate demo_host]"
    "store ?w1 (GetMachineName demo_env) = Some demo_host"
    "fst (StartHost demo_env demo_config ?w1) = Inr demo_host"
    "filter is_create (trace (snd (StartHost demo_env demo_config ?w1)))
       = filter is_create (trace ?w1)"
    "filter is_restart (trace (snd (StartHost demo_env demo_config ?w1)))
       = filter is_restart (trace ?w1)"
    by blast+
  moreover have "trace demo_fresh = []" by (simp add: demo)
  moreover have "filter is_restart (trace ?w1) = [EvSave demo_host]"
    by (simp add: demo_first_start(2))
  ultimately show ?thesis
    using fresh by (simp add: nm)
qed

subsection \<open>Engine options on an existing record\<close>

text \<open>
  C3, as the code has it. The engine options computed from the current configuration are its
  environment, the default service CIDR followed by its insecure registries, its registry
  mirrors and its flags. On a \<open>StartHost\<close> against an existing record nothing is created, and
  of the recomputed options only a non-empty environment is used: the engine options of the
  host that is returned are those of the record with that environment, and the provisioner is
  run with them. When the driver reports the machine Running, the store is not written: the
  persisted engine options stay as they were.
\<close>

theorem StartHost_existing_engine_options:
  assumes "store w (GetMachineName env) = Some h"
    and "StartHost env config w = (r, w')"
  shows "engineOptions env config
           = \<lparr>Env = DockerEnv config,
              InsecureRegistry = DefaultServiceCIDR env # InsecureRegistry_cfg config,
              RegistryMirror = RegistryMirror_cfg config,
              ArbitraryFlags = DockerOpt config\<rparr>
       \<and> filter is_create (trace w') = filter is_create (trace w)
       \<and> (\<forall>h'. r = Inr h' \<longrightarrow>
             EngineOptions (HostOptions h')
               = (EngineOptions (HostOptions h))
                   \<lparr>Env := (if DockerEnv config = [] then Env (EngineOptions (HostOptions h))
                            else DockerEnv config)\<rparr>
             \<and> (DockerEnv config \<noteq> [] \<longrightarrow>
                  (\<exists>p. EvProvision p (SwarmOptions (HostOptions h)) (AuthOptions (HostOptions h))
                          (EngineOptions (HostOptions h')) \<in> set (trace w'))))
       \<and> (GetState_res env (Driver h)
             (trace w @ [EvExists (GetMachineName env), EvLoad (GetMachineName env)])
           = Inr State_Running \<longrightarrow>
             store w' = store w
             \<and> filter is_restart (trace w') = filter is_restart (trace w))"
proof -
  have "filter is_create (trace w') = filter is_create (trace w)"
    using StartHost_keeps [OF assms(1), of config] assms(2) by simp
  moreover have "EngineOptions (HostOptions h')
               = (EngineOptions (HostOptions h))
                   \<lparr>Env := (if DockerEnv config = [] then Env (EngineOptions (HostOptions h))
                            else DockerEnv config)\<rparr>
             \<and> (DockerEnv config \<noteq> [] \<longrightarrow>
                  (\<exists>p. EvProvision p (SwarmOptions (HostOptions h)) (AuthOptions (HostOptions h))
                          (EngineOptions (HostOptions h')) \<in> set (trace w')))"
    if "r = Inr h'" for h'
    using StartHost_result [OF _ assms(1), of config h' w'] assms(2) that
    by (auto simp: with_Env_def)
  moreover have "store w' = store w \<and> filter is_restart (trace w') = filter is_restart (trace w)"
    if "GetState_res env (Driver h)
             (trace w @ [EvExists (GetMachineName env), EvLoad (GetMachineName env)])
           = Inr State_Running"
    using StartHost_running [OF assms(2,1) that] .
  moreover have "engineOptions env config
           = \<lparr>Env = DockerEnv config,
              InsecureRegistry = DefaultServiceCIDR env # InsecureRegistry_cfg config,
              RegistryMirror = RegistryMirror_cfg config,
              ArbitraryFlags = DockerOpt config\<rparr>"
    by (simp add: engineOptions_def)
  ultimately show ?thesis
    by blast
qed

lemma demo_registry_start:
  "fst (StartHost demo_env demo_config_registry demo_existing)
     = Inr (with_Env demo_host [''HTTP_PROXY=http://proxy:3128''])"
  "store (snd (StartHost demo_env demo_config_registry demo_existing)) ''minikube'' = Some demo_host"
  by (simp_all add: StartHost_defs calls demo demo_config_registry_def with_Env_def Let_def)

theorem StartHost_existing_engine_options_witness:
  "fst (StartHost demo_env demo_config_registry demo_existing)
     = Inr (with_Env demo_host [''HTTP_PROXY=http://proxy:3128''])
   \<and> store (snd (StartHost demo_env demo_config_registry demo_existing)) = store demo_existing
   \<and> (\<exists>p. EvProvision p [] (AuthOptions (HostOptions demo_host))
            \<lparr>Env = [''HTTP_PROXY=http://proxy:3128''], InsecureRegistry = [''10.96.0.0/12''],
             RegistryMirror = [], ArbitraryFlags = []\<rparr>
          \<in> set (trace (snd (StartHost demo_env demo_config_registry demo_existing))))"
proof -
  let ?w' = "snd (StartHost demo_env demo_config_registry demo_existing)"
  let ?h' = "with_Env demo_host [''HTTP_PROXY=http://proxy:3128'']"
  have ex: "store demo_existing (GetMachineName demo_env) = Some demo_host"
    by (simp add: demo)
  have run: "StartHost demo_env demo_config_registry demo_existing = (Inr ?h', ?w')"
    using demo_registry_start(1) by (simp add: prod_eq_iff)
  have env: "DockerEnv demo_config_registry \<noteq> []"
    by (simp add: demo_config_registry_def)
  have running: "GetState_res demo_env (Driver demo_host)
      (trace demo_existing @ [EvExists (GetMachineName demo_env), EvLoad (GetMachineName demo_env)])
      = Inr State_Running"
    by (simp add: demo)
  from StartHost_existing_engine_options [OF ex run] env running
  have "store ?w' = store demo_existing"
    and "\<exists>p. EvProvision p (SwarmOptions (HostOptions demo_host)) (AuthOptions (HostOptions demo_host))
            (EngineOptions (HostOptions ?h')) \<in> set (trace ?w')"
    by blast+
  then show ?thesis
    using demo_registry_start(1) by (simp add: demo with_Env_def)
qed

text \<open>
  C3, as the specification states it, fails: starting the existing, running machine with the
  insecure registry \<^verbatim>\<open>registry.local:5000\<close> in the configuration returns the host, creates
  nothing, and leaves the persisted insecure registries at the default service CIDR alone,
  while the recomputed options list the new registry.
\<close>

theorem StartHost_keeps_persisted_registries:
  "fst (StartHost demo_env (demo_config\<lparr>InsecureRegistry_cfg := [''registry.local:5000'']\<rparr>)
          demo_existing) = Inr demo_host
   \<and> filter is_create
        (trace (snd (StartHost demo_env
                       (demo_config\<lparr>InsecureRegistry_cfg := [''registry.local:5000'']\<rparr>)
                       demo_existing))) = [EvCreate demo_host]
   \<and> InsecureRegistry
        (engineOptions demo_env (demo_config\<lparr>InsecureRegistry_cfg := [''registry.local:5000'']\<rparr>))
       = [''10.96.0.0/12'', ''registry.local:5000'']
   \<and> map_option InsecureRegistry
        (map_option EngineOptions
           (map_option HostOptions
              (store (snd (StartHost demo_env
                             (demo_config\<lparr>InsecureRegistry_cfg := [''registry.local:5000'']\<rparr>)
                             demo_existing)) ''minikube'')))
       = Some [''10.96.0.0/12'']"
  by (simp add: StartHost_defs calls demo Let_def)

subsection \<open>Driver mismatch\<close>

text \<open>
  C4. When the record of the machine loads and its driver is not the one the configuration
  requests, \<open>StartHost\<close> prints the warning that the requested driver is ignored, leaves the
  persisted record (and so its driver kind) as it is, creates nothing, and a host it returns
  has the driver, the driver name and the name of the record. The mismatch changes nothing
  else: the result, the calls made and the store are those of the same call with the
  record's own driver requested.
\<close>

theorem StartHost_driver_mismatch:
  assumes "store w (GetMachineName env) = Some h"
    and "Driver_DriverName (Driver h) \<noteq> VMDriver config"
    and "Exists_fault env (GetMachineName env) (trace w) = None"
    and "Load_fault env (GetMachineName env) (trace w @ [EvExists (GetMachineName env)]) = None"
    and "StartHost env config w = (r, w')"
  shows "Warning ''Ignoring --vm-driver=%s, as the existing %q VM was created using the %s driver.''
           [VMDriver config, GetMachineName env, Driver_DriverName (Driver h)] \<in> set (console w')
       \<and> store w' (GetMachineName env) = Some h
       \<and> filter is_create (trace w') = filter is_create (trace w)
       \<and> (\<forall>h'. r = Inr h' \<longrightarrow> Driver h' = Driver h \<and> DriverName h' = DriverName h \<and> Name h' = Name h)
       \<and> r = fst (StartHost env (config\<lparr>VMDriver := Driver_DriverName (Driver h)\<rparr>) w)
       \<and> trace w' = trace (snd (StartHost env (config\<lparr>VMDriver := Driver_DriverName (Driver h)\<rparr>) w))
       \<and> store w' = store (snd (StartHost env (config\<lparr>VMDriver := Driver_DriverName (Driver h)\<rparr>) w))"
proof -
  let ?name = "GetMachineName env"
  let ?config' = "config\<lparr>VMDriver := Driver_DriverName (Driver h)\<rparr>"
  let ?w2 = "emit (EvLoad ?name) (emit (EvExists ?name) w)"
  have run: "StartHost_existing env config h (StartHost_notice env config h True ?w2) = (r, w')"
    using assms(5,1)
  proof (cases rule: StartHost_cases)
    case (exists_failed err)
    then show ?thesis using assms(3) by simp
  next
    case (load_failed err)
    then show ?thesis using assms(4) by simp
  next
    case loaded
    then show ?thesis by simp
  qed
  have warned: "Warning ''Ignoring --vm-driver=%s, as the existing %q VM was created using the %s driver.''
           [VMDriver config, ?name, Driver_DriverName (Driver h)] \<in> set (console w')"
    using notice_warning [OF assms(2), of env True ?w2] existing_console [OF run] by blast
  have kept: "store w' ?name = Some h" "filter is_create (trace w') = filter is_create (trace w)"
    using StartHost_keeps [OF assms(1), of config] assms(5) by simp_all
  have same: "Driver h' = Driver h \<and> DriverName h' = DriverName h \<and> Name h' = Name h"
    if "r = Inr h'" for h'
    using StartHost_result(1) [OF _ assms(1), of config h' w'] assms(5) that
    by (auto simp: with_Env_def split: if_splits)
  have other: "StartHost env ?config' w
                 = StartHost_existing env ?config' h (StartHost_notice env ?config' h True ?w2)"
    using assms(1,3,4) by (simp add: StartHost_def api_Exists_def api_Load_def)
  have indep:
    "fst (StartHost_existing env config h (StartHost_notice env config h True ?w2))
       = fst (StartHost_existing env ?config' h (StartHost_notice env ?config' h True ?w2))
     \<and> store (snd (StartHost_existing env config h (StartHost_notice env config h True ?w2)))
       = store (snd (StartHost_existing env ?config' h (StartHost_notice env ?config' h True ?w2)))
     \<and> trace (snd (StartHost_existing env config h (StartHost_notice env config h True ?w2)))
       = trace (snd (StartHost_existing env ?config' h (StartHost_notice env ?config' h True ?w2)))"
    by (rule existing_indep) simp_all
  from indep run other have
    "r = fst (StartHost env ?config' w)"
    "trace w' = trace (snd (StartHost env ?config' w))"
    "store w' = store (snd (StartHost env ?config' w))"
    by simp_all
  with warned kept same show ?thesis by blast
qed

lemma demo_mismatch_start:
  "fst (StartHost demo_env (demo_config\<lparr>VMDriver := ''kvm2''\<rparr>) demo_stopped) = Inr demo_host"
  "trace (snd (StartHost demo_env (demo_config\<lparr>VMDriver := ''kvm2''\<rparr>) demo_stopped))
     = [EvCreate demo_host, EvSave demo_host, EvStop demo_host, EvExists ''minikube'',
        EvLoad ''minikube'', EvGetState (MkDriver ''virtualbox'' ''{}''),
        EvStart (MkDriver ''virtualbox'' ''{}''), EvSave demo_host, EvConfigureAuth demo_host]"
  by (simp_all add: StartHost_defs calls demo demo_stopped_def Let_def)

theorem StartHost_driver_mismatch_witness:
  "fst (StartHost demo_env (demo_config\<lparr>VMDriver := ''kvm2''\<rparr>) demo_stopped) = Inr demo_host
   \<and> Warning ''Ignoring --vm-driver=%s, as the existing %q VM was created using the %s driver.''
        [''kvm2'', ''minikube'', ''virtualbox'']
       \<in> set (console (snd (StartHost demo_env (demo_config\<lparr>VMDriver := ''kvm2''\<rparr>) demo_stopped)))
   \<and> store (snd (StartHost demo_env (demo_config\<lparr>VMDriver := ''kvm2''\<rparr>) demo_stopped)) ''minikube''
       = Some demo_host
   \<and> trace (snd (StartHost demo_env (demo_config\<lparr>VMDriver := ''kvm2''\<rparr>) demo_stopped))
       = trace (snd (StartHost demo_env demo_config demo_stopped))"
proof -
  let ?c = "demo_config\<lparr>VMDriver := ''kvm2''\<rparr>"
  let ?w' = "snd (StartHost demo_env ?c demo_stopped)"
  have ex: "store demo_stopped (GetMachineName demo_env) = Some demo_host"
    by (simp add: demo demo_stopped_def)
  have differ: "Driver_DriverName (Driver demo_host) \<noteq> VMDriver ?c"
    by (simp add: demo)
  have e: "Exists_fault demo_env (GetMachineName demo_env) (trace demo_stopped) = None"
    by (simp add: demo)
  have l: "Load_fault demo_env (GetMachineName demo_env)
             (trace demo_stopped @ [EvExists (GetMachineName demo_env)]) = None"
    by (simp add: demo)
  have run: "StartHost demo_env ?c demo_stopped = (Inr demo_host, ?w')"
    using demo_mismatch_start(1) by (simp add: prod_eq_iff)
  have names: "VMDriver ?c = ''kvm2''" "GetMachineName demo_env = ''minikube''"
    "Driver_DriverName (Driver demo_host) = ''virtualbox''"
    by (simp_all add: demo)
  have same: "demo_config\<lparr>VMDriver := ''virtualbox''\<rparr> = demo_config"
    by (simp add: demo)
  from StartHost_driver_mismatch [OF ex differ e l run]
  have "Warning ''Ignoring --vm-driver=%s, as the existing %q VM was created using the %s driver.''
          [VMDriver ?c, GetMachineName demo_env, Driver_DriverName (Driver demo_host)]
          \<in> set (console ?w')"
    and "store ?w' (GetMachineName demo_env) = Some demo_host"
    and "trace ?w'
           = trace (snd (StartHost demo_env (?c\<lparr>VMDriver := Driver_DriverName (Driver demo_host)\<rparr>)
                           demo_stopped))"
    by blast+
  then show ?thesis
    using demo_mismatch_start(1) by (simp add: names same)
qed

end
